theory Spec2Isabelle
  imports Main
begin

section \<open>Python values\<close>

text \<open>
  The gateway is Python. A \<^verbatim>\<open>str\<close> is modelled as a \<^typ>\<open>string\<close>, one \<^typ>\<open>char\<close> per code
  point, which covers the code points 0 to 255. A \<^verbatim>\<open>dict\<close> is an association list in
  insertion order: Python dictionaries iterate in insertion order, and the manager relies
  on that order when it picks a new active model.
\<close>

type_synonym 'v dict = "(string \<times> 'v) list"

definition dict_has :: "'v dict \<Rightarrow> string \<Rightarrow> bool" where
  \<comment> \<open>\<^verbatim>\<open>k in d\<close>\<close>
  "dict_has d k = (k \<in> set (map fst d))"

definition dict_get :: "'v dict \<Rightarrow> string \<Rightarrow> 'v option" where
  "dict_get d k = map_of d k"

fun dict_set :: "'v dict \<Rightarrow> string \<Rightarrow> 'v \<Rightarrow> 'v dict" where
  \<comment> \<open>\<^verbatim>\<open>d[k] = v\<close>: an existing key keeps its position, a new key goes last\<close>
  "dict_set [] k v = [(k, v)]"
| "dict_set ((k', v') # d) k v = (if k' = k then (k, v) # d else (k', v') # dict_set d k v)"

definition dict_del :: "'v dict \<Rightarrow> string \<Rightarrow> 'v dict" where
  \<comment> \<open>\<^verbatim>\<open>del d[k]\<close>, used by the source only after \<^verbatim>\<open>k in d\<close>\<close>
  "dict_del d k = filter (\<lambda>kv. fst kv \<noteq> k) d"

definition dict_keys :: "'v dict \<Rightarrow> string list" where
  "dict_keys d = map fst d"

text \<open>
  What \<^verbatim>\<open>response.json()\<close> returns, and what the result dictionaries hold. A float keeps
  its literal; no function of the gateway inspects it.
\<close>

datatype json =
    JNull
  | JBool bool
  | JInt int
  | JFloat string
  | JStr string
  | JArr "json list"
  | JObj "(string \<times> json) list"

text \<open>An exception: its class and \<^verbatim>\<open>str(e)\<close>.\<close>

datatype exc_class =
    RequestException | Timeout | HTTPError | ConnectionError
  | TypeError | AttributeError | IndexError | KeyError | ValueError | OSError
  | OtherException

fun is_RequestException :: "exc_class \<Rightarrow> bool" where
  \<comment> \<open>\<^verbatim>\<open>isinstance(e, requests.exceptions.RequestException)\<close>: the class itself and its
      subclasses \<^verbatim>\<open>Timeout\<close>, \<^verbatim>\<open>HTTPError\<close> (raised by \<^verbatim>\<open>raise_for_status\<close>) and
      \<^verbatim>\<open>ConnectionError\<close>\<close>
  "is_RequestException RequestException = True"
| "is_RequestException Timeout = True"
| "is_RequestException HTTPError = True"
| "is_RequestException ConnectionError = True"
| "is_RequestException c = False"

datatype py_exc = Exc exc_class string

fun str_exc :: "py_exc \<Rightarrow> string" where
  "str_exc (Exc c m) = m"

fun class_of :: "py_exc \<Rightarrow> exc_class" where
  "class_of (Exc c m) = c"

fun type_name :: "json \<Rightarrow> string" where
  "type_name JNull = ''NoneType''"
| "type_name (JBool b) = ''bool''"
| "type_name (JInt i) = ''int''"
| "type_name (JFloat f) = ''float''"
| "type_name (JStr s) = ''str''"
| "type_name (JArr xs) = ''list''"
| "type_name (JObj d) = ''dict''"

definition quoted :: "string \<Rightarrow> string" where
  \<comment> \<open>the text between two apostrophes, as Python's messages quote a name\<close>
  "quoted s = [CHR 0x27] @ s @ [CHR 0x27]"

definition and_then :: "'e + 'a \<Rightarrow> ('a \<Rightarrow> 'e + 'b) \<Rightarrow> 'e + 'b" where
  \<comment> \<open>sequencing: an exception of the first step skips the second\<close>
  "and_then r f = (case r of Inl e \<Rightarrow> Inl e | Inr x \<Rightarrow> f x)"

fun starts_with :: "'a list \<Rightarrow> 'a list \<Rightarrow> bool" where
  \<comment> \<open>\<^verbatim>\<open>starts_with p s\<close>: \<^verbatim>\<open>s\<close> begins with \<^verbatim>\<open>p\<close>\<close>
  "starts_with [] s = True"
| "starts_with (p # ps) [] = False"
| "starts_with (p # ps) (c # cs) = (p = c \<and> starts_with ps cs)"

fun has_substring :: "string \<Rightarrow> string \<Rightarrow> bool" where
  "has_substring p [] = (p = [])"
| "has_substring p (c # cs) = (starts_with p (c # cs) \<or> has_substring p cs)"

fun py_get :: "json \<Rightarrow> string \<Rightarrow> json \<Rightarrow> py_exc + json" where
  \<comment> \<open>\<^verbatim>\<open>x.get(k, default)\<close>\<close>
  "py_get (JObj d) k dflt = Inr (case dict_get d k of Some v \<Rightarrow> v | None \<Rightarrow> dflt)"
| "py_get x k dflt =
     Inl (Exc AttributeError
       (quoted (type_name x) @ '' object has no attribute '' @ quoted ''get''))"

fun py_index0 :: "json \<Rightarrow> py_exc + json" where
  \<comment> \<open>\<^verbatim>\<open>x[0]\<close>; the keys of a parsed JSON object are strings, so 0 is never one of them\<close>
  "py_index0 (JArr []) = Inl (Exc IndexError ''list index out of range'')"
| "py_index0 (JArr (x # xs)) = Inr x"
| "py_index0 (JStr []) = Inl (Exc IndexError ''string index out of range'')"
| "py_index0 (JStr (c # cs)) = Inr (JStr [c])"
| "py_index0 (JObj d) = Inl (Exc KeyError ''0'')"
| "py_index0 x = Inl (Exc TypeError (quoted (type_name x) @ '' object is not subscriptable''))"

fun py_contains :: "string \<Rightarrow> json \<Rightarrow> py_exc + bool" where
  \<comment> \<open>\<^verbatim>\<open>k in x\<close>\<close>
  "py_contains k (JObj d) = Inr (dict_has d k)"
| "py_contains k (JArr xs) = Inr (JStr k \<in> set xs)"
| "py_contains k (JStr s) = Inr (has_substring k s)"
| "py_contains k x =
     Inl (Exc TypeError (''argument of type '' @ quoted (type_name x) @ '' is not iterable''))"

section \<open>The regular expression of the connectors\<close>

text \<open>
  Every connector uses the pattern \<^verbatim>\<open>```(?:\w+)?\n(.+?)\n```\<close> with \<^verbatim>\<open>re.DOTALL\<close>, once in
  \<^verbatim>\<open>re.findall\<close> and once in \<^verbatim>\<open>re.sub\<close>, and then \<^verbatim>\<open>str.strip()\<close>. A Python \<^verbatim>\<open>str\<close> is a
  sequence of Unicode code points, and the classes \<^verbatim>\<open>\w\<close> and whitespace are tables of the
  Unicode database. The matcher is therefore written over any type of characters: it takes
  the class \<^verbatim>\<open>\w\<close> as \<open>word\<close>, the whitespace class as \<open>space\<close>, the backtick as \<open>bt\<close> and
  the newline as \<open>nl\<close>. In Python a newline is not a word character; the matcher below is
  the pattern's backtracking search under that condition.
\<close>

definition strip :: "('c \<Rightarrow> bool) \<Rightarrow> 'c list \<Rightarrow> 'c list" where
  \<comment> \<open>\<^verbatim>\<open>s.strip()\<close>: the whitespace at both ends removed\<close>
  "strip space s = rev (dropWhile space (rev (dropWhile space s)))"

definition opener :: "'c \<Rightarrow> 'c list" where
  "opener bt = [bt, bt, bt]"

definition closer :: "'c \<Rightarrow> 'c \<Rightarrow> 'c list" where
  "closer bt nl = [nl, bt, bt, bt]"

definition match_open :: "('c \<Rightarrow> bool) \<Rightarrow> 'c \<Rightarrow> 'c \<Rightarrow> 'c list \<Rightarrow> 'c list option" where
  \<comment> \<open>\<^verbatim>\<open>```(?:\w+)?\n\<close> at the start of the text; the result is the text after it. A word
      character is not a newline, so of all the lengths the greedy \<^verbatim>\<open>\w+\<close> may give back
      only the whole run of word characters can be followed by the newline.\<close>
  "match_open word bt nl s =
     (if starts_with (opener bt) s then
        (case dropWhile word (drop (length (opener bt)) s) of
           [] \<Rightarrow> None
         | c # r \<Rightarrow> if c = nl then Some r else None)
      else None)"

fun match_body :: "'c \<Rightarrow> 'c \<Rightarrow> 'c list \<Rightarrow> ('c list \<times> 'c list) option" where
  \<comment> \<open>\<^verbatim>\<open>(.+?)\n```\<close> at the start of the text: the lazy group takes one character, then
      one more each time the closer does not follow. The result is the group and the text
      after the closer.\<close>
  "match_body bt nl [] = None"
| "match_body bt nl (c # cs) =
     (if starts_with (closer bt nl) cs then Some ([c], drop (length (closer bt nl)) cs)
      else (case match_body bt nl cs of None \<Rightarrow> None | Some (g, r) \<Rightarrow> Some (c # g, r)))"

definition match_here ::
  "('c \<Rightarrow> bool) \<Rightarrow> 'c \<Rightarrow> 'c \<Rightarrow> 'c list \<Rightarrow> ('c list \<times> 'c list) option" where
  \<comment> \<open>the whole pattern at the start of the text\<close>
  "match_here word bt nl s =
     (case match_open word bt nl s of None \<Rightarrow> None | Some r \<Rightarrow> match_body bt nl r)"

fun search_block ::
  "('c \<Rightarrow> bool) \<Rightarrow> 'c \<Rightarrow> 'c \<Rightarrow> 'c list \<Rightarrow> ('c list \<times> 'c list \<times> 'c list) option" where
  \<comment> \<open>the leftmost match: the text before it, its group, the text after it\<close>
  "search_block word bt nl [] = None"
| "search_block word bt nl (c # cs) =
     (case match_here word bt nl (c # cs) of
        Some (g, r) \<Rightarrow> Some ([], g, r)
      | None \<Rightarrow> (case search_block word bt nl cs of
                  None \<Rightarrow> None
                | Some (p, g, r) \<Rightarrow> Some (c # p, g, r)))"

lemma match_body_shorter: "match_body bt nl s = Some (g, r) \<Longrightarrow> length r < length s"
  by (induction s arbitrary: g r) (auto split: if_splits option.splits)

lemma match_here_shorter: "match_here word bt nl s = Some (g, r) \<Longrightarrow> length r < length s"
proof -
  assume m: "match_here word bt nl s = Some (g, r)"
  then obtain t where o: "match_open word bt nl s = Some t"
    and b: "match_body bt nl t = Some (g, r)"
    by (auto simp: match_here_def split: option.splits)
  from o obtain c where "dropWhile word (drop (length (opener bt)) s) = c # t"
    by (auto simp: match_open_def split: if_splits list.splits)
  then have "length (c # t) \<le> length (drop (length (opener bt)) s)"
    by (metis length_dropWhile_le)
  then have "length t < length s" by simp
  with match_body_shorter [OF b] show ?thesis by simp
qed

lemma search_block_shorter:
  "search_block word bt nl s = Some (p, g, r) \<Longrightarrow> length r < length s"
proof (induction s arbitrary: p g r)
  case Nil
  then show ?case by simp
next
  case (Cons c cs)
  show ?case
  proof (cases "match_here word bt nl (c # cs)")
    case None
    with Cons.prems obtain p' where "search_block word bt nl cs = Some (p', g, r)"
      by (auto split: option.splits)
    from Cons.IH [OF this] show ?thesis by simp
  next
    case (Some a)
    with Cons.prems have "match_here word bt nl (c # cs) = Some (g, r)"
      by (cases a) auto
    then show ?thesis by (rule match_here_shorter)
  qed
qed

function find_blocks :: "('c \<Rightarrow> bool) \<Rightarrow> 'c \<Rightarrow> 'c \<Rightarrow> 'c list \<Rightarrow> 'c list list" where
  \<comment> \<open>\<^verbatim>\<open>re.findall(pattern, s, re.DOTALL)\<close>: the groups of the matches, left to right,
      each search starting where the previous match ended\<close>
  "find_blocks word bt nl s =
     (case search_block word bt nl s of
        None \<Rightarrow> []
      | Some (p, g, r) \<Rightarrow> g # find_blocks word bt nl r)"
  by pat_completeness auto
termination
  by (relation "measure (\<lambda>(word, bt, nl, s). length s)") (auto dest: search_block_shorter)

function remove_blocks :: "('c \<Rightarrow> bool) \<Rightarrow> 'c \<Rightarrow> 'c \<Rightarrow> 'c list \<Rightarrow> 'c list" where
  \<comment> \<open>\<^verbatim>\<open>re.sub(pattern, '', s, flags=re.DOTALL)\<close>: every match removed\<close>
  "remove_blocks word bt nl s =
     (case search_block word bt nl s of
        None \<Rightarrow> s
      | Some (p, g, r) \<Rightarrow> p @ remove_blocks word bt nl r)"
  by pat_completeness auto
termination
  by (relation "measure (\<lambda>(word, bt, nl, s). length s)") (auto dest: search_block_shorter)

declare find_blocks.simps [simp del] remove_blocks.simps [simp del]

definition extract_parts ::
  "('c \<Rightarrow> bool) \<Rightarrow> ('c \<Rightarrow> bool) \<Rightarrow> 'c \<Rightarrow> 'c \<Rightarrow> 'c list \<Rightarrow> 'c list \<times> 'c list" where
  \<comment> \<open>the extraction each connector applies to the text of the response:
      \<^verbatim>\<open>code_blocks = re.findall(...)\<close>, \<^verbatim>\<open>code = code_blocks[0] if code_blocks else content\<close>,
      \<^verbatim>\<open>explanation = re.sub(...).strip()\<close>; the result is the code and the explanation. The
      two defaults assigned before are overwritten on every path.\<close>
  "extract_parts word space bt nl content =
     (let code_blocks = find_blocks word bt nl content;
          code = (case code_blocks of g # gs \<Rightarrow> g | [] \<Rightarrow> content);
          explanation = strip space (remove_blocks word bt nl content)
      in (code, explanation))"

text \<open>
  The rest of the model has its strings in \<^typ>\<open>string\<close>, one \<^typ>\<open>char\<close> per code point
  below 256. These are the two classes of Python 3 there, and the functions above at them.
\<close>

definition is_word_char :: "char \<Rightarrow> bool" where
  \<comment> \<open>\<^verbatim>\<open>\w\<close>\<close>
  "is_word_char c = (let n = (of_char c :: nat) in
       (48 \<le> n \<and> n \<le> 57) \<or> (65 \<le> n \<and> n \<le> 90) \<or> n = 95 \<or> (97 \<le> n \<and> n \<le> 122)
     \<or> n = 170 \<or> n = 178 \<or> n = 179 \<or> n = 181 \<or> n = 185 \<or> n = 186
     \<or> (188 \<le> n \<and> n \<le> 190) \<or> (192 \<le> n \<and> n \<le> 214) \<or> (216 \<le> n \<and> n \<le> 246)
     \<or> (248 \<le> n \<and> n \<le> 255))"

definition is_space_char :: "char \<Rightarrow> bool" where
  \<comment> \<open>the characters \<^verbatim>\<open>str.strip()\<close> removes\<close>
  "is_space_char c = (let n = (of_char c :: nat) in
       (9 \<le> n \<and> n \<le> 13) \<or> (28 \<le> n \<and> n \<le> 32) \<or> n = 133 \<or> n = 160)"

definition backtick :: char where
  "backtick = CHR 0x60"

definition newline :: char where
  "newline = CHR ''\<newline>''"

definition py_strip :: "string \<Rightarrow> string" where
  "py_strip s = strip is_space_char s"

definition re_search :: "string \<Rightarrow> (string \<times> string \<times> string) option" where
  "re_search s = search_block is_word_char backtick newline s"

definition re_findall :: "string \<Rightarrow> string list" where
  "re_findall s = find_blocks is_word_char backtick newline s"

definition re_sub :: "string \<Rightarrow> string" where
  "re_sub s = remove_blocks is_word_char backtick newline s"

definition process_content :: "string \<Rightarrow> json dict" where
  \<comment> \<open>what a connector returns for the text: the dictionary of the two results\<close>
  "process_content content =
     (case extract_parts is_word_char is_space_char backtick newline content of
        (code, explanation) \<Rightarrow> [(''code'', JStr code), (''explanation'', JStr explanation)])"

section \<open>The request layer\<close>

text \<open>
  One HTTP request as \<^verbatim>\<open>APIConnector._make_request\<close> hands it to \<^verbatim>\<open>session.request\<close>. The URL is
  \<^verbatim>\<open>urljoin(base_url, endpoint)\<close>; the two parts are kept side by side.
\<close>

record request =
  req_method :: string
  req_base_url :: string
  req_endpoint :: string
  req_json :: "json option"
  req_headers :: "string dict"
  req_params :: "string dict option"
  req_timeout :: nat

text \<open>
  The \<^verbatim>\<open>requests\<close> library is outside the repository. What the three calls in the
  \<^verbatim>\<open>try\<close> block of \<^verbatim>\<open>_make_request\<close> do together (\<^verbatim>\<open>session.request\<close>,
  \<^verbatim>\<open>response.raise_for_status()\<close>, \<^verbatim>\<open>response.json()\<close>) is an outcome the network
  supplies: the first exception raised, or the parsed body.
\<close>

datatype http_outcome = Raised py_exc | Returned json

record world =
  respond :: "request \<Rightarrow> http_outcome"
  sent :: "request list"

datatype connector_class = DeepSeek | Gemini | OpenAI | Grok | Claude

record connector =
  cls :: connector_class
  api_key :: string
  base_url :: string

definition error_dict :: "string \<Rightarrow> json dict" where
  "error_dict msg = [(''error'', JStr msg)]"

definition make_request ::
  "connector \<Rightarrow> world \<Rightarrow> string \<Rightarrow> string \<Rightarrow> json option \<Rightarrow> string dict option
     \<Rightarrow> string dict option \<Rightarrow> (py_exc + json) \<times> world" where
  \<comment> \<open>\<^verbatim>\<open>APIConnector._make_request\<close>: only a \<^verbatim>\<open>RequestException\<close> is caught\<close>
  "make_request c w method endpoint data headers params =
     (let headers = (case headers of None \<Rightarrow> [] | Some h \<Rightarrow> h);
          req = \<lparr>req_method = method, req_base_url = base_url c, req_endpoint = endpoint,
                 req_json = data, req_headers = headers, req_params = params,
                 req_timeout = 30\<rparr>;
          w' = w\<lparr>sent := sent w @ [req]\<rparr>
      in case respond w req of
           Returned j \<Rightarrow> (Inr j, w')
         | Raised e \<Rightarrow>
             if is_RequestException (class_of e)
             then (Inr (JObj (error_dict (str_exc e))), w')
             else (Inl e, w'))"

section \<open>The connectors\<close>

definition failed_to_process :: "py_exc \<Rightarrow> json" where
  \<comment> \<open>the \<^verbatim>\<open>except Exception\<close> branch of a connector's \<^verbatim>\<open>generate_code\<close>\<close>
  "failed_to_process e = JObj (error_dict (''Failed to process response: '' @ str_exc e))"

definition process_response :: "py_exc + json \<Rightarrow> json" where
  \<comment> \<open>the \<^verbatim>\<open>try\<close> block of a connector's \<^verbatim>\<open>generate_code\<close>, given what the navigation to
      the text produced; \<^verbatim>\<open>re.findall\<close> raises on a value that is not a string\<close>
  "process_response content =
     (case content of
        Inl e \<Rightarrow> failed_to_process e
      | Inr (JStr s) \<Rightarrow> JObj (process_content s)
      | Inr x \<Rightarrow> failed_to_process (Exc TypeError
                 (''expected string or bytes-like object, got '' @ quoted (type_name x))))"

definition after_request ::
  "(json \<Rightarrow> py_exc + json) \<Rightarrow> (py_exc + json) \<times> world \<Rightarrow> (py_exc + json) \<times> world" where
  \<comment> \<open>what every \<^verbatim>\<open>generate_code\<close> does with the response: \<^verbatim>\<open>if "error" in response: return
      response\<close> stands before the \<^verbatim>\<open>try\<close>, so an exception of the test leaves the connector\<close>
  "after_request navigate rw =
     (case fst rw of
        Inl e \<Rightarrow> (Inl e, snd rw)
      | Inr response \<Rightarrow>
          (case py_contains ''error'' response of
             Inl e \<Rightarrow> (Inl e, snd rw)
           | Inr True \<Rightarrow> (Inr response, snd rw)
           | Inr False \<Rightarrow> (Inr (process_response (navigate response)), snd rw)))"

definition chat_headers :: "connector \<Rightarrow> string dict" where
  "chat_headers c =
     [(''Content-Type'', ''application/json''), (''Authorization'', ''Bearer '' @ api_key c)]"

definition chat_data :: "string \<Rightarrow> string \<Rightarrow> json \<Rightarrow> json" where
  "chat_data model prompt temperature =
     JObj [(''model'', JStr model),
           (''messages'', JArr [JObj [(''role'', JStr ''user''), (''content'', JStr prompt)]]),
           (''temperature'', temperature)]"

definition choices_content :: "json \<Rightarrow> py_exc + json" where
  \<comment> \<open>\<^verbatim>\<open>response.get("choices", [{}])[0].get("message", {}).get("content", "")\<close>\<close>
  "choices_content response =
     and_then (py_get response ''choices'' (JArr [JObj []])) (\<lambda>a.
     and_then (py_index0 a) (\<lambda>b.
     and_then (py_get b ''message'' (JObj [])) (\<lambda>c.
     py_get c ''content'' (JStr []))))"

definition candidates_text :: "json \<Rightarrow> py_exc + json" where
  \<comment> \<open>\<^verbatim>\<open>response.get("candidates", [{}])[0].get("content", {}).get("parts", [{}])[0]
      .get("text", "")\<close>\<close>
  "candidates_text response =
     and_then (py_get response ''candidates'' (JArr [JObj []])) (\<lambda>a.
     and_then (py_index0 a) (\<lambda>b.
     and_then (py_get b ''content'' (JObj [])) (\<lambda>c.
     and_then (py_get c ''parts'' (JArr [JObj []])) (\<lambda>d.
     and_then (py_index0 d) (\<lambda>e.
     py_get e ''text'' (JStr []))))))"

definition content_text :: "json \<Rightarrow> py_exc + json" where
  \<comment> \<open>\<^verbatim>\<open>response.get("content", [{}])[0].get("text", "")\<close>\<close>
  "content_text response =
     and_then (py_get response ''content'' (JArr [JObj []])) (\<lambda>a.
     and_then (py_index0 a) (\<lambda>b.
     py_get b ''text'' (JStr [])))"

definition deepseek_generate_code ::
  "connector \<Rightarrow> world \<Rightarrow> string \<Rightarrow> string \<Rightarrow> json \<Rightarrow> (py_exc + json) \<times> world" where
  \<comment> \<open>\<^verbatim>\<open>DeepSeekConnector.generate_code(prompt, model, temperature)\<close>\<close>
  "deepseek_generate_code c w prompt model temperature =
     after_request choices_content
       (make_request c w ''POST'' ''chat/completions''
          (Some (chat_data model prompt temperature)) (Some (chat_headers c)) None)"

definition gemini_generate_code ::
  "connector \<Rightarrow> world \<Rightarrow> string \<Rightarrow> string \<Rightarrow> json \<Rightarrow> (py_exc + json) \<times> world" where
  \<comment> \<open>\<^verbatim>\<open>GeminiConnector.generate_code\<close>: the key travels as a query parameter\<close>
  "gemini_generate_code c w prompt model temperature =
     after_request candidates_text
       (make_request c w ''POST'' (''models/'' @ model @ '':generateContent'')
          (Some (JObj [(''contents'', JArr [JObj [(''parts'', JArr [JObj [(''text'', JStr prompt)]])]]),
                       (''generationConfig'', JObj [(''temperature'', temperature)])]))
          (Some [(''Content-Type'', ''application/json'')])
          (Some [(''key'', api_key c)]))"

definition openai_generate_code ::
  "connector \<Rightarrow> world \<Rightarrow> string \<Rightarrow> string \<Rightarrow> json \<Rightarrow> (py_exc + json) \<times> world" where
  \<comment> \<open>\<^verbatim>\<open>OpenAIConnector.generate_code\<close>\<close>
  "openai_generate_code c w prompt model temperature =
     after_request choices_content
       (make_request c w ''POST'' ''chat/completions''
          (Some (chat_data model prompt temperature)) (Some (chat_headers c)) None)"

definition grok_generate_code ::
  "connector \<Rightarrow> world \<Rightarrow> string \<Rightarrow> string \<Rightarrow> json \<Rightarrow> (py_exc + json) \<times> world" where
  \<comment> \<open>\<^verbatim>\<open>GrokConnector.generate_code\<close>\<close>
  "grok_generate_code c w prompt model temperature =
     after_request choices_content
       (make_request c w ''POST'' ''chat/completions''
          (Some (chat_data model prompt temperature)) (Some (chat_headers c)) None)"

definition claude_generate_code ::
  "connector \<Rightarrow> world \<Rightarrow> string \<Rightarrow> string \<Rightarrow> json \<Rightarrow> (py_exc + json) \<times> world" where
  \<comment> \<open>\<^verbatim>\<open>ClaudeConnector.generate_code\<close>\<close>
  "claude_generate_code c w prompt model temperature =
     after_request content_text
       (make_request c w ''POST'' ''messages''
          (Some (chat_data model prompt temperature))
          (Some [(''Content-Type'', ''application/json''), (''x-api-key'', api_key c),
                 (''anthropic-version'', ''2023-06-01'')])
          None)"

definition connector_generate_code ::
  "connector \<Rightarrow> world \<Rightarrow> string \<Rightarrow> json \<Rightarrow> (py_exc + json) \<times> world" where
  \<comment> \<open>\<^verbatim>\<open>connector.generate_code(prompt, temperature=temperature)\<close> as the manager calls it:
      the method of the connector's class, with that method's default model\<close>
  "connector_generate_code c w prompt temperature =
     (case cls c of
        DeepSeek \<Rightarrow> deepseek_generate_code c w prompt ''deepseek-coder'' temperature
      | Gemini \<Rightarrow> gemini_generate_code c w prompt ''gemini-pro-code'' temperature
      | OpenAI \<Rightarrow> openai_generate_code c w prompt ''gpt-5'' temperature
      | Grok \<Rightarrow> grok_generate_code c w prompt ''grok-2'' temperature
      | Claude \<Rightarrow> claude_generate_code c w prompt ''claude-3-opus'' temperature)"

section \<open>The factory\<close>

definition new_connector :: "connector_class \<Rightarrow> string \<Rightarrow> connector" where
  \<comment> \<open>the constructors: each class passes its own base URL to \<^verbatim>\<open>APIConnector.__init__\<close>\<close>
  "new_connector k key =
     \<lparr>cls = k, api_key = key,
      base_url = (case k of
         DeepSeek \<Rightarrow> ''https://api.deepseek.com/v1''
       | Gemini \<Rightarrow> ''https://generativelanguage.googleapis.com/v1''
       | OpenAI \<Rightarrow> ''https://api.openai.com/v1''
       | Grok \<Rightarrow> ''https://api.grok.com/v1''
       | Claude \<Rightarrow> ''https://api.anthropic.com/v1'')\<rparr>"

definition create_connector :: "string \<Rightarrow> string \<Rightarrow> py_exc + connector" where
  \<comment> \<open>\<^verbatim>\<open>AIModelFactory.create_connector\<close>\<close>
  "create_connector model_name key =
     (if model_name = ''model1'' then Inr (new_connector DeepSeek key)
      else if model_name = ''model2'' then Inr (new_connector Gemini key)
      else if model_name = ''model3'' then Inr (new_connector OpenAI key)
      else if model_name = ''model4'' then Inr (new_connector Grok key)
      else if model_name = ''model5'' then Inr (new_connector Claude key)
      else Inl (Exc ValueError (''Unknown model: '' @ model_name)))"

definition provider_ids :: "string list" where
  \<comment> \<open>the names the factory accepts\<close>
  "provider_ids = [''model1'', ''model2'', ''model3'', ''model4'', ''model5'']"

section \<open>The model manager\<close>

text \<open>
  The state of a \<^verbatim>\<open>ModelManager\<close>. Its methods mutate it in place; here each method that
  assigns to a field returns the new state with its result. Logging is left out.
\<close>

record manager =
  api_keys :: "string dict"
  connectors :: "connector dict"
  active_model :: "string option"

definition init_manager :: manager where
  \<comment> \<open>\<^verbatim>\<open>ModelManager.__init__\<close>\<close>
  "init_manager = \<lparr>api_keys = [], connectors = [], active_model = None\<rparr>"

definition first_key :: "'v dict \<Rightarrow> string option" where
  \<comment> \<open>\<^verbatim>\<open>next(iter(d)) if d else None\<close>\<close>
  "first_key d = (case d of [] \<Rightarrow> None | kv # rest \<Rightarrow> Some (fst kv))"

definition set_api_key :: "manager \<Rightarrow> string \<Rightarrow> string \<Rightarrow> bool \<times> manager" where
  \<comment> \<open>\<^verbatim>\<open>ModelManager.set_api_key\<close>. The key is stored first; an exception of the factory is
      caught after that assignment and gives \<^verbatim>\<open>False\<close>.\<close>
  "set_api_key m model_name key =
     (let m1 = m\<lparr>api_keys := dict_set (api_keys m) model_name key\<rparr> in
      if key \<noteq> [] then
        (case create_connector model_name key of
           Inl e \<Rightarrow> (False, m1)
         | Inr c \<Rightarrow>
             (let m2 = m1\<lparr>connectors := dict_set (connectors m1) model_name c\<rparr>;
                  m3 = (if active_model m2 = None then m2\<lparr>active_model := Some model_name\<rparr>
                        else m2)
              in (True, m3)))
      else
        (let m2 = (if dict_has (connectors m1) model_name
                   then m1\<lparr>connectors := dict_del (connectors m1) model_name\<rparr> else m1);
             m3 = (if active_model m2 = Some model_name
                   then m2\<lparr>active_model := first_key (connectors m2)\<rparr> else m2)
         in (True, m3)))"

definition set_active_model :: "manager \<Rightarrow> string \<Rightarrow> bool \<times> manager" where
  "set_active_model m model_name =
     (if dict_has (connectors m) model_name then (True, m\<lparr>active_model := Some model_name\<rparr>)
      else (False, m))"

definition get_active_model :: "manager \<Rightarrow> string option" where
  "get_active_model m = active_model m"

definition get_available_models :: "manager \<Rightarrow> string list" where
  "get_available_models m = dict_keys (connectors m)"

fun py_setitem :: "json \<Rightarrow> string \<Rightarrow> json \<Rightarrow> py_exc + json dict" where
  \<comment> \<open>\<^verbatim>\<open>x[k] = v\<close> with a string \<^verbatim>\<open>k\<close>; on a dictionary the result is the updated one\<close>
  "py_setitem (JObj d) k v = Inr (dict_set d k v)"
| "py_setitem (JArr xs) k v =
     Inl (Exc TypeError ''list indices must be integers or slices, not str'')"
| "py_setitem x k v =
     Inl (Exc TypeError (quoted (type_name x) @ '' object does not support item assignment''))"

definition failed_to_generate :: "py_exc \<Rightarrow> json dict" where
  \<comment> \<open>the \<^verbatim>\<open>except Exception\<close> branch of \<^verbatim>\<open>ModelManager.generate_code\<close>\<close>
  "failed_to_generate e = error_dict (''Failed to generate code: '' @ str_exc e)"

definition ensure_fields :: "json dict \<Rightarrow> json dict" where
  \<comment> \<open>\<^verbatim>\<open>if "code" not in result: ...\<close>, \<^verbatim>\<open>if "explanation" not in result: ...\<close>\<close>
  "ensure_fields d =
     (let d1 = (if \<not> dict_has d ''code'' then dict_set d ''code'' (JStr ''// No code generated'')
                else d)
      in if \<not> dict_has d1 ''explanation''
         then dict_set d1 ''explanation'' (JStr ''No explanation provided'') else d1)"

definition finish_result :: "string \<Rightarrow> (py_exc + json) \<times> world \<Rightarrow> json dict \<times> world" where
  \<comment> \<open>the \<^verbatim>\<open>try\<close> block of \<^verbatim>\<open>ModelManager.generate_code\<close> after the connector's call:
      \<^verbatim>\<open>result["model"] = model_to_use\<close>, then the two defaults\<close>
  "finish_result model_to_use rw =
     (case fst rw of
        Inl e \<Rightarrow> (failed_to_generate e, snd rw)
      | Inr result \<Rightarrow>
          (case py_setitem result ''model'' (JStr model_to_use) of
             Inl e \<Rightarrow> (failed_to_generate e, snd rw)
           | Inr d \<Rightarrow> (ensure_fields d, snd rw)))"

definition resolve_model :: "manager \<Rightarrow> string option \<Rightarrow> string option" where
  \<comment> \<open>\<^verbatim>\<open>model_name if model_name else self.active_model\<close>: an empty name counts as none\<close>
  "resolve_model m model_name =
     (case model_name of
        None \<Rightarrow> active_model m
      | Some n \<Rightarrow> if n \<noteq> [] then Some n else active_model m)"

definition generate_code ::
  "manager \<Rightarrow> world \<Rightarrow> string \<Rightarrow> string option \<Rightarrow> json \<Rightarrow> json dict \<times> world" where
  \<comment> \<open>\<^verbatim>\<open>ModelManager.generate_code(prompt, model_name, temperature)\<close>; it assigns to no field
      of the manager\<close>
  "generate_code m w prompt model_name temperature =
     (case resolve_model m model_name of
        None \<Rightarrow> (error_dict ''No active model set'', w)
      | Some n \<Rightarrow>
          if n = [] then (error_dict ''No active model set'', w)
          else if \<not> dict_has (connectors m) n
          then (error_dict (''Model '' @ n @ '' not available''), w)
          else
            (case dict_get (connectors m) n of
               None \<Rightarrow> (failed_to_generate (Exc KeyError (quoted n)), w)
             | Some c \<Rightarrow> finish_result n (connector_generate_code c w prompt temperature)))"

text \<open>The four other capabilities build a prompt and call \<^verbatim>\<open>generate_code\<close>.\<close>

definition documentation_prompt :: "string \<Rightarrow> string" where
  "documentation_prompt code =
     ''Generate comprehensive documentation for the following code:\<newline>\<newline>```\<newline>'' @ code @ ''\<newline>```\<newline>\<newline>Please include:\<newline>1. Overview of what the code does\<newline>2. Function/class descriptions\<newline>3. Parameter explanations\<newline>4. Return value descriptions\<newline>5. Usage examples''"

definition tests_prompt :: "string \<Rightarrow> string" where
  "tests_prompt code =
     ''Generate comprehensive test cases for the following code:\<newline>\<newline>```\<newline>'' @ code @ ''\<newline>```\<newline>\<newline>Please include:\<newline>1. Unit tests for all functions/methods\<newline>2. Edge case tests\<newline>3. Integration tests if applicable\<newline>4. Test setup and teardown code''"

definition fix_prompt :: "string \<Rightarrow> string \<Rightarrow> string" where
  "fix_prompt code error_message =
     ''Fix the bugs in the following code that is producing this error:\<newline>\<newline>Error: '' @ error_message @ ''\<newline>\<newline>Code:\<newline>```\<newline>'' @ code @ ''\<newline>```\<newline>\<newline>Please provide:\<newline>1. The fixed code\<newline>2. An explanation of what was wrong\<newline>3. How the fix resolves the issue''"

definition optimize_prompt :: "string \<Rightarrow> string \<Rightarrow> string" where
  "optimize_prompt code optimization_goal =
     ''Optimize the following code for '' @ optimization_goal @ '':\<newline>\<newline>```\<newline>'' @ code @ ''\<newline>```\<newline>\<newline>Please provide:\<newline>1. The optimized code\<newline>2. An explanation of the optimizations made\<newline>3. The expected improvements''"

definition generate_documentation ::
  "manager \<Rightarrow> world \<Rightarrow> string \<Rightarrow> string option \<Rightarrow> json \<Rightarrow> json dict \<times> world" where
  "generate_documentation m w code model_name temperature =
     generate_code m w (documentation_prompt code) model_name temperature"

definition generate_tests ::
  "manager \<Rightarrow> world \<Rightarrow> string \<Rightarrow> string option \<Rightarrow> json \<Rightarrow> json dict \<times> world" where
  "generate_tests m w code model_name temperature =
     generate_code m w (tests_prompt code) model_name temperature"

definition fix_bugs ::
  "manager \<Rightarrow> world \<Rightarrow> string \<Rightarrow> string \<Rightarrow> string option \<Rightarrow> json \<Rightarrow> json dict \<times> world" where
  "fix_bugs m w code error_message model_name temperature =
     generate_code m w (fix_prompt code error_message) model_name temperature"

definition optimize_code ::
  "manager \<Rightarrow> world \<Rightarrow> string \<Rightarrow> string \<Rightarrow> string option \<Rightarrow> json \<Rightarrow> json dict \<times> world" where
  "optimize_code m w code optimization_goal model_name temperature =
     generate_code m w (optimize_prompt code optimization_goal) model_name temperature"

text \<open>
  Saving and loading the keys. A file holds a JSON object of strings (what \<^verbatim>\<open>json.dump\<close>
  writes for \<^verbatim>\<open>api_keys\<close>), or something \<^verbatim>\<open>load_api_keys\<close> cannot open, parse or
  iterate. Whether \<^verbatim>\<open>os.makedirs\<close> and \<^verbatim>\<open>open(file_path, 'w')\<close> succeed for a path is a
  property of the file system.
\<close>

datatype file_content = Keys_json "string dict" | Unreadable

record filesystem =
  files :: "string \<Rightarrow> file_content option"
  writable :: "string \<Rightarrow> bool"

definition save_api_keys :: "manager \<Rightarrow> filesystem \<Rightarrow> string \<Rightarrow> bool \<times> filesystem" where
  \<comment> \<open>\<^verbatim>\<open>ModelManager.save_api_keys\<close>: \<^verbatim>\<open>json.dump(self.api_keys, f)\<close>, the whole map\<close>
  "save_api_keys m fs file_path =
     (if writable fs file_path
      then (True, fs\<lparr>files := (files fs)(file_path \<mapsto> Keys_json (api_keys m))\<rparr>)
      else (False, fs))"

definition load_api_keys :: "manager \<Rightarrow> filesystem \<Rightarrow> string \<Rightarrow> bool \<times> manager" where
  \<comment> \<open>\<^verbatim>\<open>ModelManager.load_api_keys\<close>: \<^verbatim>\<open>set_api_key\<close> for each entry, its result ignored\<close>
  "load_api_keys m fs file_path =
     (case files fs file_path of
        None \<Rightarrow> (False, m)
      | Some Unreadable \<Rightarrow> (False, m)
      | Some (Keys_json d) \<Rightarrow> (True, fold (\<lambda>kv m'. snd (set_api_key m' (fst kv) (snd kv))) d m))"

text \<open>
  The calls that change a session. The five capabilities are not among them: they return
  a result and leave the manager as it is.
\<close>

datatype call =
    Set_api_key string string
  | Set_active_model string
  | Save_api_keys string
  | Load_api_keys string

fun do_call :: "call \<Rightarrow> manager \<times> filesystem \<Rightarrow> manager \<times> filesystem" where
  "do_call (Set_api_key n k) (m, fs) = (snd (set_api_key m n k), fs)"
| "do_call (Set_active_model n) (m, fs) = (snd (set_active_model m n), fs)"
| "do_call (Save_api_keys p) (m, fs) = (m, snd (save_api_keys m fs p))"
| "do_call (Load_api_keys p) (m, fs) = (snd (load_api_keys m fs p), fs)"

definition run :: "call list \<Rightarrow> manager \<times> filesystem \<Rightarrow> manager \<times> filesystem" where
  "run calls s = fold do_call calls s"

definition active_ok :: "manager \<Rightarrow> bool" where
  \<comment> \<open>the active model, when set, is a key of \<^verbatim>\<open>connectors\<close>\<close>
  "active_ok m = (case active_model m of None \<Rightarrow> True | Some n \<Rightarrow> dict_has (connectors m) n)"

section \<open>The thin front end\<close>

text \<open>
  \<^verbatim>\<open>AIIntegration\<close> in \<^verbatim>\<open>ai_integration.py\<close>: a table of models, and one method per
  capability that picks the provider's own \<^verbatim>\<open>_call_modelN_api(prompt, mode)\<close>. Its methods
  carry the prefix \<^verbatim>\<open>ai_\<close> here, since the manager has methods of the same names.
\<close>

record model_info =
  mi_name :: string
  mi_api_key :: "string option"
  mi_endpoint :: string
  mi_models :: "string dict"

record integration =
  models :: "(string \<times> model_info) list"

definition AI_MODELS :: "(string \<times> model_info) list" where
  "AI_MODELS =
     [(''model1'', \<lparr>mi_name = ''Model 1'', mi_api_key = None, mi_endpoint = ''https://api.deepseek.com/v1'',
         mi_models = [(''code'', ''deepseek-coder''), (''chat'', ''deepseek-chat''), (''vision'', ''deepseek-vision'')]\<rparr>),
      (''model2'', \<lparr>mi_name = ''Model 2'', mi_api_key = None, mi_endpoint = ''https://generativelanguage.googleapis.com/v1'',
         mi_models = [(''code'', ''gemini-pro-code''), (''chat'', ''gemini-pro''), (''vision'', ''gemini-pro-vision'')]\<rparr>),
      (''model3'', \<lparr>mi_name = ''Model 3'', mi_api_key = None, mi_endpoint = ''https://api.openai.com/v1'',
         mi_models = [(''code'', ''gpt-5''), (''chat'', ''gpt-5''), (''vision'', ''gpt-5-vision'')]\<rparr>),
      (''model4'', \<lparr>mi_name = ''Model 4'', mi_api_key = None, mi_endpoint = ''https://api.grok.com/v1'',
         mi_models = [(''code'', ''grok-2''), (''chat'', ''grok-2''), (''vision'', ''grok-2-vision'')]\<rparr>),
      (''model5'', \<lparr>mi_name = ''Model 5'', mi_api_key = None, mi_endpoint = ''https://api.anthropic.com/v1'',
         mi_models = [(''code'', ''claude-3-opus''), (''chat'', ''claude-3-opus''), (''vision'', ''claude-3-opus'')]\<rparr>)]"

definition ai_set_api_key :: "integration \<Rightarrow> string \<Rightarrow> string \<Rightarrow> bool \<times> integration" where
  \<comment> \<open>\<^verbatim>\<open>AIIntegration.set_api_key\<close>\<close>
  "ai_set_api_key ai model_name key =
     (case dict_get (models ai) model_name of
        None \<Rightarrow> (False, ai)
      | Some info \<Rightarrow>
          (True, ai\<lparr>models := dict_set (models ai) model_name (info\<lparr>mi_api_key := Some key\<rparr>)\<rparr>))"

definition simulated_call ::
  "integration \<Rightarrow> string \<Rightarrow> string \<Rightarrow> string \<Rightarrow> string \<Rightarrow> py_exc + json dict" where
  \<comment> \<open>the common body of the five \<^verbatim>\<open>_call_modelN_api\<close>: the two lookups
      \<^verbatim>\<open>self.models[key]\<close> and \<^verbatim>\<open>model_info["models"][mode]\<close>, which raise \<^verbatim>\<open>KeyError\<close>,
      then the sample response of the mode. The headers and the payload the method builds
      are sent nowhere.\<close>
  "simulated_call ai key mode code_sample content_sample =
     (case dict_get (models ai) key of
        None \<Rightarrow> Inl (Exc KeyError (quoted key))
      | Some info \<Rightarrow>
          (case dict_get (mi_models info) mode of
             None \<Rightarrow> Inl (Exc KeyError (quoted mode))
           | Some model \<Rightarrow>
               if mode = ''code''
               then Inr [(''code'', JStr code_sample),
                         (''explanation'',
                          JStr ''This code implements a basic solution based on your requirements.'')]
               else Inr [(''content'', JStr content_sample)]))"

definition call_model1_api :: "integration \<Rightarrow> string \<Rightarrow> string \<Rightarrow> py_exc + json dict" where
  \<comment> \<open>\<^verbatim>\<open>AIIntegration._call_model1_api(prompt, mode)\<close>\<close>
  "call_model1_api ai prompt mode =
     simulated_call ai ''model1'' mode
       (''// Generated code using DeepSeek\<newline>\<newline>function example() {\<newline>  console.log('' @ [CHR 0x27] @ ''Hello, world!'' @ [CHR 0x27] @ '');\<newline>  // Implementation based on requirements\<newline>}\<newline>\<newline>example();'')
       ''This is a sample response from the DeepSeek API.''"

definition call_model2_api :: "integration \<Rightarrow> string \<Rightarrow> string \<Rightarrow> py_exc + json dict" where
  \<comment> \<open>\<^verbatim>\<open>AIIntegration._call_model2_api(prompt, mode)\<close>\<close>
  "call_model2_api ai prompt mode =
     simulated_call ai ''model2'' mode
       (''// Generated code using Gemini\<newline>\<newline>function example() {\<newline>  console.log('' @ [CHR 0x27] @ ''Hello, world!'' @ [CHR 0x27] @ '');\<newline>  // Implementation based on requirements\<newline>}\<newline>\<newline>example();'')
       ''This is a sample response from the Gemini API.''"

definition call_model3_api :: "integration \<Rightarrow> string \<Rightarrow> string \<Rightarrow> py_exc + json dict" where
  \<comment> \<open>\<^verbatim>\<open>AIIntegration._call_model3_api(prompt, mode)\<close>\<close>
  "call_model3_api ai prompt mode =
     simulated_call ai ''model3'' mode
       (''// Generated code using ChatGPT-5\<newline>\<newline>function example() {\<newline>  console.log('' @ [CHR 0x27] @ ''Hello, world!'' @ [CHR 0x27] @ '');\<newline>  // Implementation based on requirements\<newline>}\<newline>\<newline>example();'')
       ''This is a sample response from the OpenAI API.''"

definition call_model4_api :: "integration \<Rightarrow> string \<Rightarrow> string \<Rightarrow> py_exc + json dict" where
  \<comment> \<open>\<^verbatim>\<open>AIIntegration._call_model4_api(prompt, mode)\<close>\<close>
  "call_model4_api ai prompt mode =
     simulated_call ai ''model4'' mode
       (''// Generated code using Grok\<newline>\<newline>function example() {\<newline>  console.log('' @ [CHR 0x27] @ ''Hello, world!'' @ [CHR 0x27] @ '');\<newline>  // Implementation based on requirements\<newline>}\<newline>\<newline>example();'')
       ''This is a sample response from the Grok API.''"

definition call_model5_api :: "integration \<Rightarrow> string \<Rightarrow> string \<Rightarrow> py_exc + json dict" where
  \<comment> \<open>\<^verbatim>\<open>AIIntegration._call_model5_api(prompt, mode)\<close>\<close>
  "call_model5_api ai prompt mode =
     simulated_call ai ''model5'' mode
       (''// Generated code using Claude\<newline>\<newline>function example() {\<newline>  console.log('' @ [CHR 0x27] @ ''Hello, world!'' @ [CHR 0x27] @ '');\<newline>  // Implementation based on requirements\<newline>}\<newline>\<newline>example();'')
       ''This is a sample response from the Anthropic API.''"

definition catching :: "string \<Rightarrow> py_exc + json dict \<Rightarrow> json dict" where
  \<comment> \<open>\<^verbatim>\<open>except Exception as e: return {"error": f"Failed to ...: {str(e)}"}\<close>\<close>
  "catching what r =
     (case r of Inl e \<Rightarrow> error_dict (''Failed to '' @ what @ '': '' @ str_exc e) | Inr d \<Rightarrow> d)"

definition truthy :: "string option \<Rightarrow> bool" where
  \<comment> \<open>the truth value of an optional string: neither \<^verbatim>\<open>None\<close> nor empty\<close>
  "truthy x = (case x of None \<Rightarrow> False | Some v \<Rightarrow> v \<noteq> [])"

definition guarded ::
  "integration \<Rightarrow> string \<Rightarrow> json dict \<Rightarrow> json dict" where
  \<comment> \<open>the two checks that open every capability method\<close>
  "guarded ai model_name body =
     (case dict_get (models ai) model_name of
        None \<Rightarrow> error_dict (''Unknown model: '' @ model_name)
      | Some info \<Rightarrow>
          if \<not> truthy (mi_api_key info)
          then error_dict (''No API key provided for '' @ mi_name info)
          else body)"

definition ai_code_prompt ::
  "string \<Rightarrow> string \<Rightarrow> string option \<Rightarrow> bool \<Rightarrow> bool \<Rightarrow> bool \<Rightarrow> string" where
  \<comment> \<open>the prompt of \<^verbatim>\<open>AIIntegration.generate_code\<close>\<close>
  "ai_code_prompt requirements language framework include_tests include_docs optimize =
      (let framework_text =
             (case framework of
                None \<Rightarrow> []
              | Some f \<Rightarrow> if f \<noteq> [] \<and> f \<noteq> ''none''
                          then '' using the '' @ f @ '' framework'' else []);
           test_text = (if include_tests
              then ''\<newline>Include comprehensive tests for the code.'' else []);
           doc_text = (if include_docs
              then ''\<newline>Include detailed documentation and comments.'' else []);
           optimize_text = (if optimize
              then ''\<newline>Optimize the code for performance and efficiency.'' else [])
       in ''Generate '' @ language @ '' code'' @ framework_text @ '' that meets these requirements:\<newline>'' @ requirements @ test_text @ doc_text @ optimize_text)"

definition ai_generate_code ::
  "integration \<Rightarrow> string \<Rightarrow> string \<Rightarrow> string \<Rightarrow> string option \<Rightarrow> bool \<Rightarrow> bool \<Rightarrow> bool
     \<Rightarrow> json dict" where
  \<comment> \<open>\<^verbatim>\<open>AIIntegration.generate_code\<close>\<close>
  "ai_generate_code ai model_name requirements language framework include_tests include_docs
       optimize =
     guarded ai model_name
      (let prompt = ai_code_prompt requirements language framework include_tests include_docs
                      optimize
       in catching ''generate code''
       (if model_name = ''model1'' then call_model1_api ai prompt ''code''
        else if model_name = ''model2'' then call_model2_api ai prompt ''code''
        else if model_name = ''model3'' then call_model3_api ai prompt ''code''
        else if model_name = ''model4'' then call_model4_api ai prompt ''code''
        else if model_name = ''model5'' then call_model5_api ai prompt ''code''
        else Inr (error_dict (''API integration not implemented for '' @ model_name))))"

definition ai_documentation_prompt :: "string \<Rightarrow> string \<Rightarrow> string \<Rightarrow> string" where
  \<comment> \<open>the prompt of \<^verbatim>\<open>AIIntegration.generate_documentation\<close>\<close>
  "ai_documentation_prompt code language doc_format =
     ''Generate comprehensive documentation in '' @ doc_format @ '' format for the following '' @ language @ '' code:\<newline>```'' @ language @ ''\<newline>'' @ code @ ''\<newline>```\<newline>\<newline>Include:\<newline>1. Overview of what the code does\<newline>2. Explanation of key functions and classes\<newline>3. Usage examples\<newline>4. Parameters and return values\<newline>5. Any dependencies or requirements''"

definition ai_generate_documentation ::
  "integration \<Rightarrow> string \<Rightarrow> string \<Rightarrow> string \<Rightarrow> string \<Rightarrow> json dict" where
  \<comment> \<open>\<^verbatim>\<open>AIIntegration.generate_documentation\<close>\<close>
  "ai_generate_documentation ai model_name code language doc_format =
     guarded ai model_name
      (let prompt = ai_documentation_prompt code language doc_format
       in catching ''generate documentation''
       (if model_name = ''model1'' then call_model1_api ai prompt ''chat''
        else if model_name = ''model2'' then call_model2_api ai prompt ''chat''
        else if model_name = ''model3'' then call_model3_api ai prompt ''chat''
        else if model_name = ''model4'' then call_model4_api ai prompt ''chat''
        else if model_name = ''model5'' then call_model5_api ai prompt ''chat''
        else Inr (error_dict (''API integration not implemented for '' @ model_name))))"

definition ai_tests_prompt :: "string \<Rightarrow> string \<Rightarrow> string option \<Rightarrow> string" where
  \<comment> \<open>the prompt of \<^verbatim>\<open>AIIntegration.generate_tests\<close>\<close>
  "ai_tests_prompt code language test_framework =
     (let framework_text =
             (case test_framework of
                None \<Rightarrow> []
              | Some f \<Rightarrow> if f \<noteq> [] \<and> f \<noteq> ''none''
                          then '' using the '' @ f @ '' testing framework'' else [])
      in ''Generate comprehensive test cases'' @ framework_text @ '' for the following '' @ language @ '' code:\<newline>```'' @ language @ ''\<newline>'' @ code @ ''\<newline>```\<newline>\<newline>Include:\<newline>1. Unit tests for all functions and methods\<newline>2. Edge case testing\<newline>3. Integration tests if applicable\<newline>4. Test setup and teardown code'')"

definition ai_generate_tests ::
  "integration \<Rightarrow> string \<Rightarrow> string \<Rightarrow> string \<Rightarrow> string option \<Rightarrow> json dict" where
  \<comment> \<open>\<^verbatim>\<open>AIIntegration.generate_tests\<close>\<close>
  "ai_generate_tests ai model_name code language test_framework =
     guarded ai model_name
      (let prompt = ai_tests_prompt code language test_framework
       in catching ''generate tests''
       (if model_name = ''model1'' then call_model1_api ai prompt ''code''
        else if model_name = ''model2'' then call_model2_api ai prompt ''code''
        else if model_name = ''model3'' then call_model3_api ai prompt ''code''
        else if model_name = ''model4'' then call_model4_api ai prompt ''code''
        else if model_name = ''model5'' then call_model5_api ai prompt ''code''
        else Inr (error_dict (''API integration not implemented for '' @ model_name))))"

definition ai_fix_prompt :: "string \<Rightarrow> string \<Rightarrow> string \<Rightarrow> string" where
  \<comment> \<open>the prompt of \<^verbatim>\<open>AIIntegration.fix_bugs\<close>\<close>
  "ai_fix_prompt code error_message language =
     ''Fix the bugs in the following '' @ language @ '' code based on the error message:\<newline>\<newline>Error: '' @ error_message @ ''\<newline>\<newline>Code:\<newline>```'' @ language @ ''\<newline>'' @ code @ ''\<newline>```\<newline>\<newline>Provide:\<newline>1. The fixed code\<newline>2. An explanation of what was wrong\<newline>3. How the fix resolves the issue''"

definition ai_fix_bugs ::
  "integration \<Rightarrow> string \<Rightarrow> string \<Rightarrow> string \<Rightarrow> string \<Rightarrow> json dict" where
  \<comment> \<open>\<^verbatim>\<open>AIIntegration.fix_bugs\<close>\<close>
  "ai_fix_bugs ai model_name code error_message language =
     guarded ai model_name
      (let prompt = ai_fix_prompt code error_message language
       in catching ''fix bugs''
       (if model_name = ''model1'' then call_model1_api ai prompt ''code''
        else if model_name = ''model2'' then call_model2_api ai prompt ''code''
        else if model_name = ''model3'' then call_model3_api ai prompt ''code''
        else if model_name = ''model4'' then call_model4_api ai prompt ''code''
        else if model_name = ''model5'' then call_model5_api ai prompt ''code''
        else Inr (error_dict (''API integration not implemented for '' @ model_name))))"

definition no_such_method :: "string \<Rightarrow> py_exc + json dict" where
  \<comment> \<open>a call of a method the class does not define\<close>
  "no_such_method name =
     Inl (Exc AttributeError
       (quoted ''AIIntegration'' @ '' object has no attribute '' @ quoted name))"

definition ai_optimize_prompt :: "string \<Rightarrow> string \<Rightarrow> string \<Rightarrow> string" where
  \<comment> \<open>the prompt of \<^verbatim>\<open>AIIntegration.optimize_code\<close>\<close>
  "ai_optimize_prompt code language optimization_target =
     ''Optimize the following '' @ language @ '' code for '' @ optimization_target @ '':\<newline>```'' @ language @ ''\<newline>'' @ code @ ''\<newline>```\<newline>\<newline>Provide:\<newline>1. The optimized code\<newline>2. An explanation of the optimizations made\<newline>3. The expected improvements in '' @ optimization_target"

definition ai_optimize_code ::
  "integration \<Rightarrow> string \<Rightarrow> string \<Rightarrow> string \<Rightarrow> string \<Rightarrow> json dict" where
  \<comment> \<open>\<^verbatim>\<open>AIIntegration.optimize_code\<close>: its chain tests the names \<^verbatim>\<open>deepseek\<close>, \<^verbatim>\<open>gemini\<close>,
      \<^verbatim>\<open>chatgpt\<close>, \<^verbatim>\<open>grok\<close>, \<^verbatim>\<open>claude\<close> and calls methods the class does not have\<close>
  "ai_optimize_code ai model_name code language optimization_target =
     guarded ai model_name
      (let prompt = ai_optimize_prompt code language optimization_target
       in catching ''optimize code''
       (if model_name = ''deepseek'' then no_such_method ''_call_deepseek_api''
        else if model_name = ''gemini'' then no_such_method ''_call_gemini_api''
        else if model_name = ''chatgpt'' then no_such_method ''_call_openai_api''
        else if model_name = ''grok'' then no_such_method ''_call_grok_api''
        else if model_name = ''claude'' then no_such_method ''_call_anthropic_api''
        else Inr (error_dict (''API integration not implemented for '' @ model_name))))"

definition provider_api ::
  "string \<Rightarrow> integration \<Rightarrow> string \<Rightarrow> string \<Rightarrow> py_exc + json dict" where
  \<comment> \<open>the provider's own call method, by provider name\<close>
  "provider_api model_name =
     (if model_name = ''model1'' then call_model1_api
      else if model_name = ''model2'' then call_model2_api
      else if model_name = ''model3'' then call_model3_api
      else if model_name = ''model4'' then call_model4_api
      else call_model5_api)"

section \<open>Notions used by the properties\<close>

definition sum_text :: string where
  "sum_text = ''Here:\<newline>```js\<newline>function sum(a,b){return a+b;}\<newline>```\<newline>This adds two numbers.''"

definition chat_response :: "string \<Rightarrow> json" where
  \<comment> \<open>a response body in the shape of the chat completion endpoints\<close>
  "chat_response text =
     JObj [(''choices'', JArr [JObj [(''message'',
             JObj [(''role'', JStr ''assistant''), (''content'', JStr text)])]])]"

definition stub_world :: "http_outcome \<Rightarrow> world" where
  \<comment> \<open>a network that answers every request in the same way; nothing sent yet\<close>
  "stub_world out = \<lparr>respond = (\<lambda>req. out), sent = []\<rparr>"

definition two_blocks :: string where
  \<comment> \<open>a response with two fenced blocks\<close>
  "two_blocks = ''a\<newline>```\<newline>x\<newline>```\<newline>b\<newline>```\<newline>y\<newline>```\<newline>c''"

definition cpp_block :: string where
  \<comment> \<open>a fence whose tag has characters that are not word characters\<close>
  "cpp_block = ''```c++\<newline>int x;\<newline>```''"

definition init_integration :: integration where
  \<comment> \<open>\<^verbatim>\<open>AIIntegration()\<close> with no keys\<close>
  "init_integration = \<lparr>models = AI_MODELS\<rparr>"

definition empty_fs :: filesystem where
  \<comment> \<open>a file system with no file, where every path can be written\<close>
  "empty_fs = \<lparr>files = (\<lambda>p. None), writable = (\<lambda>p. True)\<rparr>"

text \<open>
  What the extraction is meant to do, said without the matcher. A fenced block is an
  opener of three backticks, a tag of word characters (which may be empty), a newline, an
  inside that is not empty, and a closer: a newline and three backticks.
\<close>

definition fenced_at :: "('c \<Rightarrow> bool) \<Rightarrow> 'c \<Rightarrow> 'c \<Rightarrow> 'c list \<Rightarrow> bool" where
  \<comment> \<open>a fenced block begins at the start of the text\<close>
  "fenced_at word bt nl s \<longleftrightarrow>
     (\<exists>tag block rest. s = opener bt @ tag @ nl # block @ closer bt nl @ rest \<and>
        (\<forall>c\<in>set tag. word c) \<and> block \<noteq> [])"

definition first_block ::
  "('c \<Rightarrow> bool) \<Rightarrow> 'c \<Rightarrow> 'c \<Rightarrow> 'c list \<Rightarrow> 'c list \<Rightarrow> 'c list \<Rightarrow> 'c list \<Rightarrow> bool" where
  \<comment> \<open>the text is \<open>before\<close>, a fenced block with the inside \<open>block\<close>, and \<open>rest\<close>; no fenced
      block begins inside \<open>before\<close>; and the inside ends at the first closer that follows
      at least one character of it\<close>
  "first_block word bt nl content before block rest \<longleftrightarrow>
     (\<exists>tag. content = before @ opener bt @ tag @ nl # block @ closer bt nl @ rest \<and>
        (\<forall>c\<in>set tag. word c)) \<and>
     block \<noteq> [] \<and>
     (\<forall>i<length before. \<not> fenced_at word bt nl (drop i content)) \<and>
     (\<forall>g r. g \<noteq> [] \<longrightarrow> block @ closer bt nl @ rest = g @ closer bt nl @ r \<longrightarrow>
        length block \<le> length g)"

inductive blocks_removed :: "('c \<Rightarrow> bool) \<Rightarrow> 'c \<Rightarrow> 'c \<Rightarrow> 'c list \<Rightarrow> 'c list \<Rightarrow> bool"
  for word :: "'c \<Rightarrow> bool" and bt :: 'c and nl :: 'c where
  \<comment> \<open>every fenced block taken out, from left to right, each search for the next block
      starting after the closer of the previous one\<close>
  no_block: "(\<And>i. \<not> fenced_at word bt nl (drop i s)) \<Longrightarrow> blocks_removed word bt nl s s"
| one_block: "first_block word bt nl s before block rest \<Longrightarrow> blocks_removed word bt nl rest others \<Longrightarrow>
     blocks_removed word bt nl s (before @ others)"

definition stripped :: "('c \<Rightarrow> bool) \<Rightarrow> 'c list \<Rightarrow> 'c list \<Rightarrow> bool" where
  \<comment> \<open>\<open>t\<close> is \<open>s\<close> without the whitespace at its two ends\<close>
  "stripped space s t \<longleftrightarrow>
     (\<exists>lead trail. s = lead @ t @ trail \<and> (\<forall>c\<in>set lead. space c) \<and> (\<forall>c\<in>set trail. space c)) \<and>
     (t \<noteq> [] \<longrightarrow> \<not> space (hd t) \<and> \<not> space (last t))"

section \<open>Dictionaries\<close>

lemma keys_dict_set:
  "map fst (dict_set d k v) = (if k \<in> set (map fst d) then map fst d else map fst d @ [k])"
proof (induction d)
  case Nil
  show ?case by simp
next
  case (Cons kv d)
  obtain k' v' where kv: "kv = (k', v')" by (cases kv)
  show ?case using Cons by (cases "k' = k") (simp_all add: kv)
qed

lemma dict_has_set: "dict_has (dict_set d k v) k' \<longleftrightarrow> k' = k \<or> dict_has d k'"
  by (simp add: dict_has_def keys_dict_set del: set_map) auto

lemma dict_get_set: "dict_get (dict_set d k v) k' = (if k' = k then Some v else dict_get d k')"
  by (induction d) (auto simp: dict_get_def)

lemma dict_has_del: "dict_has (dict_del d k) k' \<longleftrightarrow> k' \<noteq> k \<and> dict_has d k'"
  by (auto simp: dict_has_def dict_del_def)

lemma dict_has_get: "dict_has d k \<longleftrightarrow> dict_get d k \<noteq> None"
  by (induction d) (auto simp: dict_has_def dict_get_def)

lemma first_key_has: "first_key d = Some n \<Longrightarrow> dict_has d n"
  by (cases d) (auto simp: first_key_def dict_has_def)

lemma has_error_dict: "dict_has (error_dict msg) ''error''"
  by (simp add: error_dict_def dict_has_def)

section \<open>Results of the manager\<close>

lemma ensure_fields_has:
  "dict_has (ensure_fields d) k \<longleftrightarrow> k = ''code'' \<or> k = ''explanation'' \<or> dict_has d k"
  by (auto simp: ensure_fields_def Let_def dict_has_set)

lemma ensure_fields_get:
  "k \<noteq> ''code'' \<Longrightarrow> k \<noteq> ''explanation'' \<Longrightarrow> dict_get (ensure_fields d) k = dict_get d k"
  by (auto simp: ensure_fields_def Let_def dict_get_set)

lemma py_setitem_Inr:
  "py_setitem x k v = Inr d \<Longrightarrow> \<exists>d'. x = JObj d' \<and> d = dict_set d' k v"
  by (cases x) auto

lemma ensure_fields_code:
  "dict_get (ensure_fields d) ''code''
     = Some (case dict_get d ''code'' of Some v \<Rightarrow> v | None \<Rightarrow> JStr ''// No code generated'')"
  by (auto simp: ensure_fields_def Let_def dict_get_set dict_has_get split: option.splits)

lemma ensure_fields_explanation:
  "dict_get (ensure_fields d) ''explanation''
     = Some (case dict_get d ''explanation'' of
               Some v \<Rightarrow> v | None \<Rightarrow> JStr ''No explanation provided'')"
  by (auto simp: ensure_fields_def Let_def dict_get_set dict_has_get split: option.splits)

lemma finish_result_success:
  assumes "\<not> dict_has (fst (finish_result n rw)) ''error''"
  shows "\<exists>d. fst rw = Inr (JObj d) \<and> \<not> dict_has d ''error'' \<and>
           dict_get (fst (finish_result n rw)) ''code''
             = Some (case dict_get d ''code'' of
                       Some v \<Rightarrow> v | None \<Rightarrow> JStr ''// No code generated'') \<and>
           dict_get (fst (finish_result n rw)) ''explanation''
             = Some (case dict_get d ''explanation'' of
                       Some v \<Rightarrow> v | None \<Rightarrow> JStr ''No explanation provided'') \<and>
           dict_get (fst (finish_result n rw)) ''model'' = Some (JStr n)"
proof (cases "fst rw")
  case (Inl e)
  with assms show ?thesis
    by (simp add: finish_result_def failed_to_generate_def has_error_dict)
next
  case (Inr result)
  show ?thesis
  proof (cases "py_setitem result ''model'' (JStr n)")
    case (Inl e)
    with Inr assms show ?thesis
      by (simp add: finish_result_def failed_to_generate_def has_error_dict)
  next
    case r: (Inr d1)
    from py_setitem_Inr [OF r] obtain d where res: "result = JObj d"
      and d1: "d1 = dict_set d ''model'' (JStr n)" by blast
    have f: "fst (finish_result n rw) = ensure_fields (dict_set d ''model'' (JStr n))"
      using Inr r d1 by (simp add: finish_result_def)
    from assms have ne: "\<not> dict_has d ''error''"
      by (simp add: f ensure_fields_has dict_has_set)
    have c: "dict_get (fst (finish_result n rw)) ''code''
             = Some (case dict_get d ''code'' of
                       Some v \<Rightarrow> v | None \<Rightarrow> JStr ''// No code generated'')"
      by (simp add: f ensure_fields_code dict_get_set)
    have e: "dict_get (fst (finish_result n rw)) ''explanation''
             = Some (case dict_get d ''explanation'' of
                       Some v \<Rightarrow> v | None \<Rightarrow> JStr ''No explanation provided'')"
      by (simp add: f ensure_fields_explanation dict_get_set)
    have m: "dict_get (fst (finish_result n rw)) ''model'' = Some (JStr n)"
      by (simp add: f ensure_fields_get dict_get_set)
    from Inr res ne c e m show ?thesis by simp
  qed
qed

lemma generate_code_finish:
  assumes "resolve_model m model_name = Some n" and "n \<noteq> []"
    and "dict_get (connectors m) n = Some c"
  shows "generate_code m w prompt model_name t
           = finish_result n (connector_generate_code c w prompt t)"
  using assms by (simp add: generate_code_def dict_has_get)

text \<open>
  What a connector returns without raising is the response itself when it has an
  \<^verbatim>\<open>error\<close> in it, or the error dictionary of a failed extraction, or the two fields of
  an extraction. So a result of the manager without an error has exactly three fields.
\<close>

lemma after_request_cases:
  assumes "fst (after_request navigate rw) = Inr j"
  shows "py_contains ''error'' j = Inr True \<or> (\<exists>e. j = failed_to_process e) \<or>
         (\<exists>s. j = JObj (process_content s))"
proof (cases "fst rw")
  case (Inl e)
  with assms show ?thesis by (simp add: after_request_def)
next
  case (Inr response)
  show ?thesis
  proof (cases "py_contains ''error'' response")
    case (Inl e)
    with Inr assms show ?thesis by (simp add: after_request_def)
  next
    case c: (Inr b)
    show ?thesis
    proof (cases b)
      case True
      with Inr c assms show ?thesis by (simp add: after_request_def)
    next
      case False
      with Inr c assms have "j = process_response (navigate response)"
        by (simp add: after_request_def)
      then show ?thesis
        by (auto simp: process_response_def split: sum.splits json.splits)
    qed
  qed
qed

lemma connector_generate_code_cases:
  assumes "fst (connector_generate_code c w prompt t) = Inr j"
  shows "py_contains ''error'' j = Inr True \<or> (\<exists>e. j = failed_to_process e) \<or>
         (\<exists>s. j = JObj (process_content s))"
  using assms
  by (cases "cls c")
    (auto simp: connector_generate_code_def deepseek_generate_code_def gemini_generate_code_def
      openai_generate_code_def grok_generate_code_def claude_generate_code_def
      dest: after_request_cases)

lemma process_content_fields:
  "\<exists>code explanation. process_content s
     = [(''code'', JStr code), (''explanation'', JStr explanation)]"
  by (simp add: process_content_def split: prod.splits)

lemma finish_result_of_connector:
  assumes "\<not> dict_has (fst (finish_result n (connector_generate_code c w prompt t))) ''error''"
  shows "\<exists>code explanation. fst (finish_result n (connector_generate_code c w prompt t))
           = [(''code'', JStr code), (''explanation'', JStr explanation), (''model'', JStr n)]"
proof (cases "fst (connector_generate_code c w prompt t)")
  case (Inl e)
  with assms show ?thesis
    by (simp add: finish_result_def failed_to_generate_def has_error_dict)
next
  case (Inr j)
  from connector_generate_code_cases [OF Inr]
  consider (err) "py_contains ''error'' j = Inr True" | (failed) e where "j = failed_to_process e"
    | (ok) s where "j = JObj (process_content s)" by blast
  then show ?thesis
  proof cases
    case err
    have "dict_has (fst (finish_result n (connector_generate_code c w prompt t))) ''error''"
      using Inr err
      by (cases j)
        (simp_all add: finish_result_def failed_to_generate_def has_error_dict
          ensure_fields_has dict_has_set)
    with assms show ?thesis by simp
  next
    case failed
    with Inr have "dict_has (fst (finish_result n (connector_generate_code c w prompt t))) ''error''"
      by (simp add: finish_result_def failed_to_process_def ensure_fields_has dict_has_set
          has_error_dict)
    with assms show ?thesis by simp
  next
    case ok
    from process_content_fields obtain code explanation where
      "process_content s = [(''code'', JStr code), (''explanation'', JStr explanation)]"
      by blast
    with Inr ok show ?thesis
      by (simp add: finish_result_def ensure_fields_def dict_has_def)
  qed
qed

text \<open>
  C1. Every capability call of the manager that resolves a connector returns what
  \<^verbatim>\<open>generate_code\<close> makes of the connector's answer to the capability's prompt. Whatever
  the connector returned or raised, when that result has no \<^verbatim>\<open>error\<close> field the connector
  returned a dictionary without one, and the result has a \<^verbatim>\<open>code\<close> field, an
  \<^verbatim>\<open>explanation\<close> field and the name of the model: each of the two fields holds the
  connector's value when the connector gave one, and otherwise the default
  \<^verbatim>\<open>// No code generated\<close> or \<^verbatim>\<open>No explanation provided\<close>. So no result without an error has
  only one of the two fields. With the five connectors of the repository such a result is
  exactly a code string, an explanation string and the model name.
\<close>

theorem C1_success_result_complete:
  assumes "resolve_model m model_name = Some n" and "n \<noteq> []"
    and "dict_get (connectors m) n = Some c"
  shows "generate_code m w prompt model_name t
           = finish_result n (connector_generate_code c w prompt t) \<and>
         generate_documentation m w code model_name t
           = finish_result n (connector_generate_code c w (documentation_prompt code) t) \<and>
         generate_tests m w code model_name t
           = finish_result n (connector_generate_code c w (tests_prompt code) t) \<and>
         fix_bugs m w code error_message model_name t
           = finish_result n (connector_generate_code c w (fix_prompt code error_message) t) \<and>
         optimize_code m w code goal model_name t
           = finish_result n (connector_generate_code c w (optimize_prompt code goal) t) \<and>
         (\<forall>rw. \<not> dict_has (fst (finish_result n rw)) ''error'' \<longrightarrow>
            (\<exists>d. fst rw = Inr (JObj d) \<and> \<not> dict_has d ''error'' \<and>
               dict_get (fst (finish_result n rw)) ''code''
                 = Some (case dict_get d ''code'' of
                           Some v \<Rightarrow> v | None \<Rightarrow> JStr ''// No code generated'') \<and>
               dict_get (fst (finish_result n rw)) ''explanation''
                 = Some (case dict_get d ''explanation'' of
                           Some v \<Rightarrow> v | None \<Rightarrow> JStr ''No explanation provided'') \<and>
               dict_get (fst (finish_result n rw)) ''model'' = Some (JStr n))) \<and>
         (\<forall>q. \<not> dict_has (fst (finish_result n (connector_generate_code c w q t))) ''error'' \<longrightarrow>
            (\<exists>code_text explanation_text.
               fst (finish_result n (connector_generate_code c w q t))
                 = [(''code'', JStr code_text), (''explanation'', JStr explanation_text),
                    (''model'', JStr n)]))"
  using generate_code_finish [OF assms] finish_result_success finish_result_of_connector
  by (simp add: generate_documentation_def generate_tests_def fix_bugs_def optimize_code_def)

theorem C1_success_result_complete_witness:
  "resolve_model (snd (set_api_key init_manager ''model2'' ''k2'')) None = Some ''model2'' \<and>
   ''model2'' \<noteq> [] \<and>
   dict_get (connectors (snd (set_api_key init_manager ''model2'' ''k2''))) ''model2''
     = Some (new_connector Gemini ''k2'') \<and>
   \<not> dict_has (fst (finish_result ''model2''
          (Inr (JObj [(''code'', JStr ''x = 1'')]), stub_world (Returned JNull)))) ''error'' \<and>
   dict_get (fst (finish_result ''model2''
          (Inr (JObj [(''code'', JStr ''x = 1'')]), stub_world (Returned JNull)))) ''code''
     = Some (JStr ''x = 1'') \<and>
   dict_get (fst (finish_result ''model2''
          (Inr (JObj [(''code'', JStr ''x = 1'')]), stub_world (Returned JNull)))) ''explanation''
     = Some (JStr ''No explanation provided'') \<and>
   dict_get (fst (finish_result ''model2''
          (Inr (JObj [(''code'', JStr ''x = 1'')]), stub_world (Returned JNull)))) ''model''
     = Some (JStr ''model2'') \<and>
   dict_get (fst (finish_result ''model2''
          (Inr (JObj [(''explanation'', JStr ''none'')]), stub_world (Returned JNull)))) ''code''
     = Some (JStr ''// No code generated'')"
proof -
  let ?m = "snd (set_api_key init_manager ''model2'' ''k2'')"
  let ?rw = "(Inr (JObj [(''code'', JStr ''x = 1'')]), stub_world (Returned JNull))
               :: (py_exc + json) \<times> world"
  let ?rw2 = "(Inr (JObj [(''explanation'', JStr ''none'')]), stub_world (Returned JNull))
               :: (py_exc + json) \<times> world"
  have a: "resolve_model ?m None = Some ''model2''" by code_simp
  have b: "''model2'' \<noteq> []" by simp
  have c: "dict_get (connectors ?m) ''model2'' = Some (new_connector Gemini ''k2'')"
    by code_simp
  have e: "\<not> dict_has (fst (finish_result ''model2'' ?rw)) ''error''" by code_simp
  have e2: "\<not> dict_has (fst (finish_result ''model2'' ?rw2)) ''error''" by code_simp
  note t = C1_success_result_complete [OF a b c]
  from t e obtain d where d: "fst ?rw = Inr (JObj d)"
    and dc: "dict_get (fst (finish_result ''model2'' ?rw)) ''code''
      = Some (case dict_get d ''code'' of Some v \<Rightarrow> v | None \<Rightarrow> JStr ''// No code generated'')"
    and de: "dict_get (fst (finish_result ''model2'' ?rw)) ''explanation''
      = Some (case dict_get d ''explanation'' of
                Some v \<Rightarrow> v | None \<Rightarrow> JStr ''No explanation provided'')"
    and dm: "dict_get (fst (finish_result ''model2'' ?rw)) ''model'' = Some (JStr ''model2'')"
    by blast
  from d have dv: "d = [(''code'', JStr ''x = 1'')]" by simp
  from t e2 obtain d2 where d2: "fst ?rw2 = Inr (JObj d2)"
    and dc2: "dict_get (fst (finish_result ''model2'' ?rw2)) ''code''
      = Some (case dict_get d2 ''code'' of Some v \<Rightarrow> v | None \<Rightarrow> JStr ''// No code generated'')"
    by blast
  from d2 have dv2: "d2 = [(''explanation'', JStr ''none'')]" by simp
  have r1: "dict_get (fst (finish_result ''model2'' ?rw)) ''code'' = Some (JStr ''x = 1'')"
    using dc by (simp add: dv dict_get_def)
  have r2: "dict_get (fst (finish_result ''model2'' ?rw)) ''explanation''
      = Some (JStr ''No explanation provided'')"
    using de by (simp add: dv dict_get_def)
  have r3: "dict_get (fst (finish_result ''model2'' ?rw2)) ''code''
      = Some (JStr ''// No code generated'')"
    using dc2 by (simp add: dv2 dict_get_def)
  show ?thesis
    by (rule conjI [OF a conjI [OF b conjI [OF c conjI [OF e conjI [OF r1 conjI [OF r2
          conjI [OF dm r3]]]]]]])
qed

section \<open>The end-to-end scenario\<close>

lemma process_sum_text:
  "process_content sum_text =
     [(''code'', JStr ''function sum(a,b){return a+b;}''),
      (''explanation'', JStr ''Here:\<newline>\<newline>This adds two numbers.'')]"
  by code_simp

lemma set_api_key_model1:
  assumes "key \<noteq> []"
  shows "dict_get (connectors (snd (set_api_key m0 ''model1'' key))) ''model1''
           = Some (new_connector DeepSeek key)"
  using assms by (simp add: set_api_key_def Let_def create_connector_def dict_get_set)

lemma make_request_returned:
  "respond w \<lparr>req_method = method, req_base_url = base_url c, req_endpoint = endpoint,
       req_json = data, req_headers = (case headers of None \<Rightarrow> [] | Some h \<Rightarrow> h),
       req_params = params, req_timeout = 30\<rparr> = Returned j
   \<Longrightarrow> fst (make_request c w method endpoint data headers params) = Inr j"
  by (simp add: make_request_def Let_def)

lemma deepseek_text:
  assumes "\<forall>req. respond w req = Returned response"
    and "py_contains ''error'' response = Inr False"
    and "choices_content response = Inr (JStr text)"
  shows "fst (connector_generate_code (new_connector DeepSeek key) w prompt t)
           = Inr (JObj (process_content text))"
proof -
  have "fst (make_request (new_connector DeepSeek key) w ''POST'' ''chat/completions''
          (Some (chat_data ''deepseek-coder'' prompt t))
          (Some (chat_headers (new_connector DeepSeek key))) None) = Inr response"
    using assms(1) by (simp add: make_request_returned)
  then show ?thesis
    using assms(2,3)
    by (simp add: connector_generate_code_def new_connector_def deepseek_generate_code_def
        after_request_def process_response_def)
qed

text \<open>
  C2. A non-empty key is set for \<^verbatim>\<open>model1\<close> and code generation is invoked on that model
  (named in the call, or as the active model). If the network answers with a body that has
  no \<^verbatim>\<open>error\<close> entry and whose text, at \<^verbatim>\<open>choices[0].message.content\<close>, is \<^term>\<open>sum_text\<close>,
  the result is exactly: \<^verbatim>\<open>code\<close> the inside of the fence, \<^verbatim>\<open>explanation\<close> the two lines of
  prose around an empty line, \<^verbatim>\<open>model\<close> the name \<^verbatim>\<open>model1\<close>, and no \<^verbatim>\<open>error\<close> field.
\<close>

theorem C2_sum_scenario:
  assumes "key \<noteq> []"
    and "resolve_model (snd (set_api_key m0 ''model1'' key)) model_name = Some ''model1''"
    and "\<forall>req. respond w req = Returned response"
    and "py_contains ''error'' response = Inr False"
    and "choices_content response = Inr (JStr sum_text)"
  shows "fst (generate_code (snd (set_api_key m0 ''model1'' key)) w prompt model_name t) =
     [(''code'', JStr ''function sum(a,b){return a+b;}''),
      (''explanation'', JStr ''Here:\<newline>\<newline>This adds two numbers.''),
      (''model'', JStr ''model1'')]"
proof -
  let ?m = "snd (set_api_key m0 ''model1'' key)"
  have c: "dict_get (connectors ?m) ''model1'' = Some (new_connector DeepSeek key)"
    by (rule set_api_key_model1 [OF assms(1)])
  then have h: "dict_has (connectors ?m) ''model1''"
    by (simp add: dict_has_get)
  have r: "fst (connector_generate_code (new_connector DeepSeek key) w prompt t)
             = Inr (JObj (process_content sum_text))"
    by (rule deepseek_text [OF assms(3,4,5)])
  have "generate_code ?m w prompt model_name t
          = finish_result ''model1''
              (connector_generate_code (new_connector DeepSeek key) w prompt t)"
    using assms(2) c h by (simp add: generate_code_def)
  then show ?thesis
    using r by (simp add: finish_result_def process_sum_text ensure_fields_def dict_has_def)
qed

theorem C2_sum_scenario_witness:
  "''k1'' \<noteq> [] \<and>
   fst (generate_code (snd (set_api_key init_manager ''model1'' ''k1''))
          (stub_world (Returned (chat_response sum_text))) ''sum two numbers'' None
          (JFloat ''0.3''))
     = [(''code'', JStr ''function sum(a,b){return a+b;}''),
        (''explanation'', JStr ''Here:\<newline>\<newline>This adds two numbers.''),
        (''model'', JStr ''model1'')]"
proof -
  have k: "''k1'' \<noteq> []" by simp
  have a: "resolve_model (snd (set_api_key init_manager ''model1'' ''k1'')) None = Some ''model1''"
    by code_simp
  have n: "\<forall>req. respond (stub_world (Returned (chat_response sum_text))) req
             = Returned (chat_response sum_text)"
    by (simp add: stub_world_def)
  have e: "py_contains ''error'' (chat_response sum_text) = Inr False"
    by code_simp
  have t: "choices_content (chat_response sum_text) = Inr (JStr sum_text)"
    by (simp add: choices_content_def chat_response_def and_then_def dict_get_def)
  show ?thesis
    using k C2_sum_scenario [OF k a n e t] by simp
qed

section \<open>What the pattern matches\<close>

text \<open>
  The matcher against the shape it stands for. Where a newline is not a word character,
  the matcher finds a block exactly where a fenced block begins, the block it returns is
  the first one, and what \<^verbatim>\<open>re.sub\<close> and \<^verbatim>\<open>strip\<close> return is what the specification above
  describes.
\<close>

lemma starts_with_append: "starts_with p s \<Longrightarrow> s = p @ drop (length p) s"
  by (induction p s rule: starts_with.induct) auto

lemma starts_with_iff: "starts_with p s \<longleftrightarrow> (\<exists>t. s = p @ t)"
proof
  assume "starts_with p s"
  then show "\<exists>t. s = p @ t" using starts_with_append by blast
next
  assume "\<exists>t. s = p @ t"
  then obtain t where "s = p @ t" ..
  then show "starts_with p s"
    by (induction p s arbitrary: t rule: starts_with.induct) auto
qed

lemma match_open_Some:
  assumes "match_open word bt nl s = Some r"
  shows "\<exists>tag. s = opener bt @ tag @ nl # r \<and> (\<forall>c\<in>set tag. word c)"
proof -
  let ?d = "drop (length (opener bt)) s"
  from assms have sw: "starts_with (opener bt) s"
    by (simp add: match_open_def split: if_splits)
  from assms sw have dw: "dropWhile word ?d = nl # r"
    by (auto simp: match_open_def split: list.splits if_splits)
  have "?d = takeWhile word ?d @ dropWhile word ?d" by simp
  with dw have "?d = takeWhile word ?d @ nl # r" by simp
  with starts_with_append [OF sw]
  have "s = opener bt @ takeWhile word ?d @ nl # r" by simp
  moreover have "\<forall>c\<in>set (takeWhile word ?d). word c"
    by (auto dest: set_takeWhileD)
  ultimately show ?thesis by blast
qed

lemma match_open_fence:
  assumes "\<not> word nl" and "\<forall>c\<in>set tag. word c"
  shows "match_open word bt nl (opener bt @ tag @ nl # r) = Some r"
proof -
  have "dropWhile word (tag @ nl # r) = nl # r"
    using assms by (simp add: dropWhile_append2)
  moreover have "starts_with (opener bt) (opener bt @ tag @ nl # r)"
    by (simp add: starts_with_iff)
  ultimately show ?thesis by (simp add: match_open_def)
qed

lemma match_body_Some:
  "match_body bt nl s = Some (g, r) \<Longrightarrow> s = g @ closer bt nl @ r \<and> g \<noteq> []"
proof (induction s arbitrary: g r)
  case Nil
  then show ?case by simp
next
  case (Cons c cs)
  show ?case
  proof (cases "starts_with (closer bt nl) cs")
    case True
    with Cons.prems starts_with_append [OF True] show ?thesis by auto
  next
    case False
    with Cons.prems obtain g' where "match_body bt nl cs = Some (g', r)" and "g = c # g'"
      by (auto split: option.splits)
    with Cons.IH show ?thesis by auto
  qed
qed

text \<open>The group is lazy: no shorter non-empty group is followed by the closer.\<close>

lemma match_body_shortest:
  "match_body bt nl s = Some (g, r) \<Longrightarrow> s = g' @ closer bt nl @ r' \<Longrightarrow> g' \<noteq> [] \<Longrightarrow>
   length g \<le> length g'"
proof (induction s arbitrary: g r g')
  case Nil
  then show ?case by simp
next
  case (Cons c cs)
  show ?case
  proof (cases "starts_with (closer bt nl) cs")
    case True
    with Cons.prems show ?thesis by (cases g') auto
  next
    case False
    with Cons.prems(1) obtain g0 where m: "match_body bt nl cs = Some (g0, r)"
      and g: "g = c # g0"
      by (auto split: option.splits)
    from Cons.prems(2,3) obtain g1 where g': "g' = c # g1" and cs: "cs = g1 @ closer bt nl @ r'"
      by (cases g') auto
    from False cs have "g1 \<noteq> []" by (auto simp: starts_with_iff)
    from Cons.IH [OF m cs this] g g' show ?thesis by simp
  qed
qed

lemma match_body_exists:
  "g \<noteq> [] \<Longrightarrow> match_body bt nl (g @ closer bt nl @ r) \<noteq> None"
proof (induction g)
  case Nil
  then show ?case by simp
next
  case (Cons c g)
  show ?case
  proof (cases "g = []")
    case True
    then show ?thesis by (simp add: starts_with_iff)
  next
    case False
    with Cons.IH show ?thesis by (auto split: option.splits)
  qed
qed

lemma match_here_Some:
  assumes "match_here word bt nl s = Some (g, r)"
  shows "(\<exists>tag. s = opener bt @ tag @ nl # g @ closer bt nl @ r \<and> (\<forall>c\<in>set tag. word c)) \<and>
         g \<noteq> [] \<and>
         (\<forall>g' r'. g' \<noteq> [] \<longrightarrow> g @ closer bt nl @ r = g' @ closer bt nl @ r' \<longrightarrow>
            length g \<le> length g')"
proof -
  from assms obtain t where o: "match_open word bt nl s = Some t"
    and b: "match_body bt nl t = Some (g, r)"
    by (auto simp: match_here_def split: option.splits)
  from match_body_Some [OF b] have t: "t = g @ closer bt nl @ r" and n: "g \<noteq> []" by auto
  from match_open_Some [OF o] t
  have "\<exists>tag. s = opener bt @ tag @ nl # g @ closer bt nl @ r \<and> (\<forall>c\<in>set tag. word c)"
    by auto
  moreover have "\<forall>g' r'. g' \<noteq> [] \<longrightarrow> g @ closer bt nl @ r = g' @ closer bt nl @ r' \<longrightarrow>
            length g \<le> length g'"
    using match_body_shortest [OF b] t by blast
  ultimately show ?thesis using n by blast
qed

lemma match_here_fenced:
  assumes "\<not> word nl" and "fenced_at word bt nl s"
  shows "match_here word bt nl s \<noteq> None"
proof -
  from assms(2) obtain tag block rest where
    s: "s = opener bt @ tag @ nl # block @ closer bt nl @ rest"
    and w: "\<forall>c\<in>set tag. word c" and n: "block \<noteq> []"
    by (auto simp: fenced_at_def)
  from match_open_fence [OF assms(1) w] match_body_exists [OF n]
  show ?thesis by (simp add: s match_here_def)
qed

lemma search_block_Some:
  "search_block word bt nl s = Some (p, g, r) \<Longrightarrow>
     match_here word bt nl (drop (length p) s) = Some (g, r) \<and> p = take (length p) s \<and>
     length p \<le> length s \<and> (\<forall>i<length p. match_here word bt nl (drop i s) = None)"
proof (induction s arbitrary: p g r)
  case Nil
  then show ?case by simp
next
  case (Cons c cs)
  show ?case
  proof (cases "match_here word bt nl (c # cs)")
    case None
    with Cons.prems obtain p' where s: "search_block word bt nl cs = Some (p', g, r)"
      and p: "p = c # p'"
      by (auto split: option.splits)
    from Cons.IH [OF s] have ih: "match_here word bt nl (drop (length p') cs) = Some (g, r)"
      "p' = take (length p') cs" "length p' \<le> length cs"
      "\<forall>i<length p'. match_here word bt nl (drop i cs) = None" by auto
    have "\<forall>i<length p. match_here word bt nl (drop i (c # cs)) = None"
    proof (intro allI impI)
      fix i assume "i < length p"
      then show "match_here word bt nl (drop i (c # cs)) = None"
        using None ih(4) p by (cases i) auto
    qed
    with ih p show ?thesis by auto
  next
    case (Some a)
    with Cons.prems show ?thesis by (cases a) auto
  qed
qed

lemma search_block_None:
  "search_block word bt nl s = None \<Longrightarrow> match_here word bt nl (drop i s) = None"
proof (induction s arbitrary: i)
  case Nil
  then show ?case by (simp add: match_here_def match_open_def opener_def)
next
  case (Cons c cs)
  from Cons.prems have h: "match_here word bt nl (c # cs) = None"
    and s: "search_block word bt nl cs = None"
    by (auto split: option.splits)
  show ?case using h Cons.IH [OF s] by (cases i) auto
qed

lemma search_block_first:
  assumes "\<not> word nl" and "search_block word bt nl s = Some (before, block, rest)"
  shows "first_block word bt nl s before block rest"
proof -
  from search_block_Some [OF assms(2)]
  have m: "match_here word bt nl (drop (length before) s) = Some (block, rest)"
    and b: "before = take (length before) s"
    and e: "\<forall>i<length before. match_here word bt nl (drop i s) = None" by auto
  from match_here_Some [OF m] obtain tag where
    t: "drop (length before) s = opener bt @ tag @ nl # block @ closer bt nl @ rest"
    and w: "\<forall>c\<in>set tag. word c" and n: "block \<noteq> []"
    and l: "\<forall>g' r'. g' \<noteq> [] \<longrightarrow> block @ closer bt nl @ rest = g' @ closer bt nl @ r' \<longrightarrow>
            length block \<le> length g'"
    by blast
  have "s = take (length before) s @ drop (length before) s" by simp
  also have "take (length before) s = before" using b by simp
  also note t
  finally have d: "s = before @ opener bt @ tag @ nl # block @ closer bt nl @ rest" .
  have f: "\<forall>i<length before. \<not> fenced_at word bt nl (drop i s)"
    using e match_here_fenced [where word = word and nl = nl, OF assms(1)] by blast
  from d w n f l show ?thesis unfolding first_block_def by blast
qed

lemma search_block_no_fence:
  assumes "\<not> word nl" and "search_block word bt nl s = None"
  shows "\<not> fenced_at word bt nl (drop i s)"
  using search_block_None [OF assms(2), of i] match_here_fenced [where word = word and nl = nl, OF assms(1)] by blast

lemma search_block_finds:
  assumes "\<not> word nl" and "s = p @ opener bt @ tag @ nl # g @ closer bt nl @ r"
    and "\<forall>c\<in>set tag. word c" and "g \<noteq> []"
  shows "\<exists>before block rest. search_block word bt nl s = Some (before, block, rest) \<and>
           length before \<le> length p"
proof -
  have fa: "fenced_at word bt nl (drop (length p) s)"
    unfolding fenced_at_def using assms(2,3,4) by auto
  show ?thesis
  proof (cases "search_block word bt nl s")
    case None
    from search_block_no_fence [OF assms(1) None, of "length p"] fa show ?thesis by simp
  next
    case (Some a)
    obtain before block rest where a: "a = (before, block, rest)" by (cases a)
    have "length before \<le> length p"
    proof (rule ccontr)
      assume "\<not> length before \<le> length p"
      then have "length p < length before" by simp
      with search_block_Some [OF Some [unfolded a]]
      have "match_here word bt nl (drop (length p) s) = None" by blast
      with match_here_fenced [where word = word and nl = nl, OF assms(1) fa] show False by simp
    qed
    with Some a show ?thesis by simp
  qed
qed

lemma remove_blocks_spec:
  assumes "\<not> word nl"
  shows "blocks_removed word bt nl s (remove_blocks word bt nl s)"
proof (induction s rule: length_induct)
  case (1 s)
  show ?case
  proof (cases "search_block word bt nl s")
    case None
    then have "remove_blocks word bt nl s = s" by (simp add: remove_blocks.simps [of _ _ _ s])
    moreover have "blocks_removed word bt nl s s"
      using search_block_no_fence [OF assms None] by (intro no_block)
    ultimately show ?thesis by simp
  next
    case (Some a)
    obtain before block rest where a: "a = (before, block, rest)" by (cases a)
    with Some have s: "search_block word bt nl s = Some (before, block, rest)" by simp
    then have r: "remove_blocks word bt nl s = before @ remove_blocks word bt nl rest"
      by (simp add: remove_blocks.simps [of _ _ _ s])
    from search_block_shorter [OF s] 1
    have "blocks_removed word bt nl rest (remove_blocks word bt nl rest)" by blast
    with search_block_first [OF assms s] show ?thesis
      unfolding r by (rule one_block)
  qed
qed

lemma strip_spec: "stripped space s (strip space s)"
proof -
  let ?u = "dropWhile space s"
  let ?t = "rev (dropWhile space (rev ?u))"
  let ?trail = "rev (takeWhile space (rev ?u))"
  have u: "?u = ?t @ ?trail"
  proof -
    have "rev (takeWhile space (rev ?u) @ dropWhile space (rev ?u)) = ?t @ ?trail"
      by (simp only: rev_append)
    moreover have "takeWhile space (rev ?u) @ dropWhile space (rev ?u) = rev ?u"
      by (rule takeWhile_dropWhile_id)
    ultimately have "rev (rev ?u) = ?t @ ?trail" by (simp only:)
    then show ?thesis by (simp only: rev_rev_ident)
  qed
  have "s = takeWhile space s @ ?u" by simp
  with u have d: "s = takeWhile space s @ ?t @ ?trail" by simp
  have l: "\<forall>c\<in>set (takeWhile space s). space c" by (auto dest: set_takeWhileD)
  have tr: "\<forall>c\<in>set ?trail. space c" by (auto dest: set_takeWhileD)
  have e: "?t \<noteq> [] \<longrightarrow> \<not> space (hd ?t) \<and> \<not> space (last ?t)"
  proof
    assume n: "?t \<noteq> []"
    then have dn: "dropWhile space (rev ?u) \<noteq> []" by simp
    then have "\<not> space (hd (dropWhile space (rev ?u)))" by (rule hd_dropWhile)
    then have la: "\<not> space (last ?t)" using dn by (simp add: last_rev)
    have un: "?u \<noteq> []"
    proof
      assume z: "?u = []"
      have "?t = []" unfolding z by simp
      with n show False by simp
    qed
    then have "\<not> space (hd ?u)" by (rule hd_dropWhile)
    moreover from u n have "hd ?u = hd ?t" by (metis hd_append2)
    ultimately show "\<not> space (hd ?t) \<and> \<not> space (last ?t)" using la by simp
  qed
  from d l tr e show ?thesis unfolding stripped_def strip_def by blast
qed

lemma extract_parts_block:
  assumes "search_block word bt nl content = Some (before, block, rest)"
  shows "extract_parts word space bt nl content =
           (block, strip space (before @ remove_blocks word bt nl rest))"
  using assms
  by (simp add: extract_parts_def find_blocks.simps [of _ _ _ content]
      remove_blocks.simps [of _ _ _ content])

lemma extract_parts_no_block:
  assumes "search_block word bt nl content = None"
  shows "extract_parts word space bt nl content = (content, strip space content)"
  using assms
  by (simp add: extract_parts_def find_blocks.simps [of _ _ _ content]
      remove_blocks.simps [of _ _ _ content])

section \<open>Extraction\<close>

text \<open>
  C3. The claim: for a text with no fenced block the extraction returns the whole text as
  code and the sentinel as explanation. The code returns the whole text as code, and as
  explanation the same text with the surrounding whitespace removed: the sentinel assigned
  before is overwritten by the result of \<^verbatim>\<open>re.sub(...).strip()\<close> on every path. Evaluated here
  on the text \<^verbatim>\<open>print(1)\<close>, which has no fence.
\<close>

theorem C3_no_fence_explanation_is_text:
  "re_findall ''print(1)'' = [] \<and>
   process_content ''print(1)'' =
     [(''code'', JStr ''print(1)''), (''explanation'', JStr ''print(1)'')] \<and>
   dict_get (process_content ''print(1)'') ''explanation''
     \<noteq> Some (JStr ''No explanation found in the response'')"
  by code_simp

text \<open>
  C7, as the code has it. A fenced block is three backticks, a tag of word characters that
  may be empty, a newline, an inside that is not empty, a newline and three backticks. For
  a text that contains such a block, anywhere, and for any alphabet and character classes
  in which a newline is not a word character: the code is the inside of the leftmost
  fenced block, which ends at the first closer after at least one character of inside, so
  no later block is part of the code; the explanation is the text before that block
  followed by the text after it with every later fenced block taken out as well, the whole
  without the whitespace at its two ends. The connectors return these two under the keys
  \<^verbatim>\<open>code\<close> and \<^verbatim>\<open>explanation\<close>.
\<close>

theorem C7_leftmost_block_is_code:
  assumes "\<not> word nl"
    and "content = p @ opener bt @ tag @ nl # g @ closer bt nl @ r"
    and "\<forall>c\<in>set tag. word c" and "g \<noteq> []"
  shows "(\<exists>before block rest others explanation.
            first_block word bt nl content before block rest \<and>
            length before \<le> length p \<and>
            blocks_removed word bt nl rest others \<and>
            stripped space (before @ others) explanation \<and>
            extract_parts word space bt nl content = (block, explanation)) \<and>
         process_content s =
           [(''code'', JStr (fst (extract_parts is_word_char is_space_char backtick newline s))),
            (''explanation'',
             JStr (snd (extract_parts is_word_char is_space_char backtick newline s)))]"
proof -
  from search_block_finds [where word = word and nl = nl, OF assms] obtain before block rest where
    s: "search_block word bt nl content = Some (before, block, rest)"
    and l: "length before \<le> length p" by blast
  let ?others = "remove_blocks word bt nl rest"
  let ?explanation = "strip space (before @ ?others)"
  have f: "first_block word bt nl content before block rest"
    by (rule search_block_first [where word = word and nl = nl, OF assms(1) s])
  have b: "blocks_removed word bt nl rest ?others"
    by (rule remove_blocks_spec [where word = word and nl = nl, OF assms(1)])
  have t: "stripped space (before @ ?others) ?explanation"
    by (rule strip_spec)
  have e: "extract_parts word space bt nl content = (block, ?explanation)"
    by (rule extract_parts_block [OF s])
  have x: "\<exists>before block rest others explanation.
            first_block word bt nl content before block rest \<and>
            length before \<le> length p \<and>
            blocks_removed word bt nl rest others \<and>
            stripped space (before @ others) explanation \<and>
            extract_parts word space bt nl content = (block, explanation)"
    using f l b t e by blast
  have pc: "process_content s =
           [(''code'', JStr (fst (extract_parts is_word_char is_space_char backtick newline s))),
            (''explanation'',
             JStr (snd (extract_parts is_word_char is_space_char backtick newline s)))]"
    by (simp add: process_content_def split: prod.splits)
  from x pc show ?thesis by (rule conjI)
qed

theorem C7_leftmost_block_is_code_witness:
  "\<not> is_word_char newline \<and> is_word_char CHR ''p'' \<and> is_word_char CHR ''y'' \<and>
   ''x = 1'' \<noteq> [] \<and>
   (\<exists>block explanation.
      extract_parts is_word_char is_space_char backtick newline
        (''Hi\<newline>'' @ opener backtick @ ''py'' @ newline # ''x = 1'' @ closer backtick newline
           @ ''\<newline>Bye'') = (block, explanation)) \<and>
   process_content
     (''Hi\<newline>'' @ opener backtick @ ''py'' @ newline # ''x = 1'' @ closer backtick newline
        @ ''\<newline>Bye'')
     = [(''code'', JStr ''x = 1''), (''explanation'', JStr ''Hi\<newline>\<newline>Bye'')]"
proof -
  have nw: "\<not> is_word_char newline" by (simp add: is_word_char_def newline_def)
  have p: "is_word_char CHR ''p''" and y: "is_word_char CHR ''y''"
    by (simp_all add: is_word_char_def)
  from p y have w: "\<forall>c\<in>set ''py''. is_word_char c" by simp
  have n: "''x = 1'' \<noteq> []" by simp
  note t = C7_leftmost_block_is_code [where word = is_word_char and nl = newline
      and bt = backtick and p = "''Hi\<newline>''" and r = "''\<newline>Bye''" and space = is_space_char,
      OF nw refl w n]
  from t have e: "\<exists>block explanation.
      extract_parts is_word_char is_space_char backtick newline
        (''Hi\<newline>'' @ opener backtick @ ''py'' @ newline # ''x = 1'' @ closer backtick newline
           @ ''\<newline>Bye'') = (block, explanation)"
    by blast
  have v: "process_content
     (''Hi\<newline>'' @ opener backtick @ ''py'' @ newline # ''x = 1'' @ closer backtick newline
        @ ''\<newline>Bye'')
     = [(''code'', JStr ''x = 1''), (''explanation'', JStr ''Hi\<newline>\<newline>Bye'')]"
    by code_simp
  show ?thesis by (rule conjI [OF nw conjI [OF p conjI [OF y conjI [OF n conjI [OF e v]]]]])
qed

text \<open>
  C7 as stated fails twice. On a text with two blocks the explanation is not the text with
  the first block removed, since the second block is removed too. And a fence whose tag has
  a character that is not a word character, as in \<^verbatim>\<open>```c++\<close>, is no block for the pattern:
  the whole text comes back as code and as explanation.
\<close>

theorem C7_two_blocks_counterexample:
  "re_search two_blocks =
     Some (''a\<newline>'', ''x'', ''\<newline>b\<newline>```\<newline>y\<newline>```\<newline>c'') \<and>
   process_content two_blocks =
     [(''code'', JStr ''x''), (''explanation'', JStr ''a\<newline>\<newline>b\<newline>\<newline>c'')] \<and>
   py_strip (''a\<newline>'' @ ''\<newline>b\<newline>```\<newline>y\<newline>```\<newline>c'') =
     ''a\<newline>\<newline>b\<newline>```\<newline>y\<newline>```\<newline>c'' \<and>
   dict_get (process_content two_blocks) ''explanation'' \<noteq>
     Some (JStr (py_strip (''a\<newline>'' @ ''\<newline>b\<newline>```\<newline>y\<newline>```\<newline>c''))) \<and>
   re_findall cpp_block = [] \<and>
   process_content cpp_block =
     [(''code'', JStr ''```c++\<newline>int x;\<newline>```''),
      (''explanation'', JStr ''```c++\<newline>int x;\<newline>```'')]"
  by code_simp

section \<open>The session state\<close>

lemma create_connector_known:
  "n \<in> set provider_ids \<Longrightarrow> \<exists>c. create_connector n key = Inr c"
  by (auto simp: provider_ids_def create_connector_def)

lemma create_connector_unknown:
  "n \<notin> set provider_ids \<Longrightarrow>
     create_connector n key = Inl (Exc ValueError (''Unknown model: '' @ n))"
  by (simp add: provider_ids_def create_connector_def)

lemma set_api_key_active_ok:
  assumes "active_ok m"
  shows "active_ok (snd (set_api_key m n key))"
proof (cases "key = []")
  case True
  show ?thesis
  proof (cases "active_model m = Some n")
    case a: True
    show ?thesis
      using True a
      by (auto simp: set_api_key_def Let_def active_ok_def dict_has_del
          split: option.splits dest: first_key_has)
  next
    case a: False
    show ?thesis
      using True a assms
      by (auto simp: set_api_key_def Let_def active_ok_def dict_has_del split: option.splits)
  qed
next
  case False
  show ?thesis
  proof (cases "create_connector n key")
    case (Inl e)
    with False assms show ?thesis
      by (simp add: set_api_key_def Let_def active_ok_def split: option.splits)
  next
    case (Inr c)
    with False assms show ?thesis
      by (auto simp: set_api_key_def Let_def active_ok_def dict_has_set split: option.splits)
  qed
qed

lemma set_active_model_active_ok: "active_ok m \<Longrightarrow> active_ok (snd (set_active_model m n))"
  by (auto simp: set_active_model_def active_ok_def split: option.splits)

lemma fold_set_api_key_active_ok:
  "active_ok m \<Longrightarrow> active_ok (fold (\<lambda>kv m'. snd (set_api_key m' (fst kv) (snd kv))) d m)"
  by (induction d arbitrary: m) (simp_all add: set_api_key_active_ok)

lemma load_api_keys_active_ok: "active_ok m \<Longrightarrow> active_ok (snd (load_api_keys m fs p))"
  by (simp add: load_api_keys_def fold_set_api_key_active_ok
      split: option.splits file_content.splits)

lemma do_call_active_ok: "active_ok (fst s) \<Longrightarrow> active_ok (fst (do_call c s))"
  by (cases c; cases s)
    (simp_all add: set_api_key_active_ok set_active_model_active_ok load_api_keys_active_ok)

lemma run_active_ok: "active_ok (fst s) \<Longrightarrow> active_ok (fst (run calls s))"
  unfolding run_def by (induction calls arbitrary: s) (simp_all add: do_call_active_ok)

lemma init_active_ok: "active_ok init_manager"
  by (simp add: active_ok_def init_manager_def)

lemma dict_del_absent: "\<not> dict_has d k \<Longrightarrow> dict_del d k = d"
  by (auto simp: dict_has_def dict_del_def filter_id_conv)

lemma clear_active:
  "active_model m = Some n \<Longrightarrow>
   active_model (snd (set_api_key m n [])) = first_key (dict_del (connectors m) n)"
  by (simp add: set_api_key_def Let_def dict_del_absent)

text \<open>
  C4. In every state a session reaches from a new manager by \<^verbatim>\<open>set_api_key\<close>,
  \<^verbatim>\<open>set_active_model\<close>, \<^verbatim>\<open>save_api_keys\<close> and \<^verbatim>\<open>load_api_keys\<close>, the active model, when set,
  is a key of \<^verbatim>\<open>connectors\<close>. Clearing the key of the active model makes the first remaining
  connector, in insertion order, the active one, or none when no connector remains. So with
  no model activated before, activating A and then B leaves A active; clearing the key of A
  makes B active; clearing the key of B then leaves no active model.
\<close>

theorem C4_active_model_reassignment:
  assumes "A \<in> set provider_ids" and "B \<in> set provider_ids" and "A \<noteq> B"
    and "ka \<noteq> []" and "kb \<noteq> []"
    and "connectors m = []" and "active_model m = None"
  shows "(\<forall>calls fs. active_ok (fst (run calls (init_manager, fs)))) \<and>
         (\<forall>m' n. active_model m' = Some n \<longrightarrow>
            active_model (snd (set_api_key m' n [])) = first_key (dict_del (connectors m') n)) \<and>
         (let m1 = snd (set_api_key m A ka);
              m2 = snd (set_api_key m1 B kb);
              m3 = snd (set_api_key m2 A []);
              m4 = snd (set_api_key m3 B [])
          in active_model m2 = Some A \<and> active_model m3 = Some B \<and> active_model m4 = None)"
proof -
  from create_connector_known [OF assms(1)] obtain ca where ca: "create_connector A ka = Inr ca"
    by blast
  from create_connector_known [OF assms(2)] obtain cb where cb: "create_connector B kb = Inr cb"
    by blast
  let ?m2 = "snd (set_api_key (snd (set_api_key m A ka)) B kb)"
  let ?k2 = "dict_set (dict_set (api_keys m) A ka) B kb"
  have m2: "?m2 = \<lparr>api_keys = ?k2, connectors = [(A, ca), (B, cb)], active_model = Some A\<rparr>"
    using assms(3-7) ca cb by (simp add: set_api_key_def Let_def)
  let ?m3 = "snd (set_api_key ?m2 A [])"
  let ?k3 = "dict_set ?k2 A []"
  have "snd (set_api_key \<lparr>api_keys = ?k2, connectors = [(A, ca), (B, cb)],
              active_model = Some A\<rparr> A [])
          = \<lparr>api_keys = ?k3, connectors = [(B, cb)], active_model = Some B\<rparr>"
    using assms(3) by (simp add: set_api_key_def Let_def dict_has_def dict_del_def first_key_def)
  then have m3: "?m3 = \<lparr>api_keys = ?k3, connectors = [(B, cb)], active_model = Some B\<rparr>"
    by (simp only: m2)
  let ?m4 = "snd (set_api_key ?m3 B [])"
  have "snd (set_api_key \<lparr>api_keys = ?k3, connectors = [(B, cb)], active_model = Some B\<rparr> B [])
          = \<lparr>api_keys = dict_set ?k3 B [], connectors = [], active_model = None\<rparr>"
    by (simp add: set_api_key_def Let_def dict_has_def dict_del_def first_key_def)
  then have m4: "?m4 = \<lparr>api_keys = dict_set ?k3 B [], connectors = [], active_model = None\<rparr>"
    by (simp only: m3)
  have a2: "active_model ?m2 = Some A" by (simp add: m2)
  have a3: "active_model ?m3 = Some B" by (simp add: m3)
  have a4: "active_model ?m4 = None" by (simp add: m4)
  note s = a2 a3 a4
  have i: "\<forall>calls fs. active_ok (fst (run calls (init_manager, fs)))"
    by (simp add: run_active_ok init_active_ok)
  from i s show ?thesis by (simp add: clear_active Let_def)
qed

theorem C4_active_model_reassignment_witness:
  "''model1'' \<in> set provider_ids \<and> ''model2'' \<in> set provider_ids \<and> ''model1'' \<noteq> ''model2'' \<and>
   ''k1'' \<noteq> [] \<and> ''k2'' \<noteq> [] \<and>
   connectors init_manager = [] \<and> active_model init_manager = None \<and>
   (let m1 = snd (set_api_key init_manager ''model1'' ''k1'');
        m2 = snd (set_api_key m1 ''model2'' ''k2'');
        m3 = snd (set_api_key m2 ''model1'' []);
        m4 = snd (set_api_key m3 ''model2'' [])
    in active_model m2 = Some ''model1'' \<and> active_model m3 = Some ''model2'' \<and>
       active_model m4 = None)"
proof -
  have a: "''model1'' \<in> set provider_ids" and b: "''model2'' \<in> set provider_ids"
    by (simp_all add: provider_ids_def)
  have d: "''model1'' \<noteq> ''model2''" and ka: "''k1'' \<noteq> []" and kb: "''k2'' \<noteq> []" by simp_all
  have c: "connectors init_manager = []" and n: "active_model init_manager = None"
    by (simp_all add: init_manager_def)
  from C4_active_model_reassignment [OF a b d ka kb c n] a b d ka kb c n show ?thesis by simp
qed

text \<open>
  C5, as the code has it. For a non-empty model name, \<^verbatim>\<open>set_api_key\<close> with an empty key
  succeeds, leaves no connector under that name, and keeps the entry of the name in
  \<^verbatim>\<open>api_keys\<close>, now with the empty string as its value; a following \<^verbatim>\<open>generate_code\<close> that
  names the model returns the error \<^verbatim>\<open>Model <name> not available\<close> and sends nothing, and
  a following \<^verbatim>\<open>save_api_keys\<close> that can write its file writes the entry with the empty key.
\<close>

theorem C5_empty_key_removes_connector:
  assumes "n \<noteq> []"
  shows "fst (set_api_key m n []) = True \<and>
         \<not> dict_has (connectors (snd (set_api_key m n []))) n \<and>
         dict_get (api_keys (snd (set_api_key m n []))) n = Some [] \<and>
         generate_code (snd (set_api_key m n [])) w prompt (Some n) t
           = (error_dict (''Model '' @ n @ '' not available''), w) \<and>
         (writable fs p \<longrightarrow>
            (\<exists>d. save_api_keys (snd (set_api_key m n [])) fs p
                   = (True, fs\<lparr>files := (files fs)(p \<mapsto> Keys_json d)\<rparr>) \<and>
                 dict_get d n = Some []))"
proof -
  have c: "\<not> dict_has (connectors (snd (set_api_key m n []))) n"
    by (simp add: set_api_key_def Let_def dict_has_del)
  have k: "dict_get (api_keys (snd (set_api_key m n []))) n = Some []"
    by (simp add: set_api_key_def Let_def dict_get_set)
  have g: "generate_code (snd (set_api_key m n [])) w prompt (Some n) t
           = (error_dict (''Model '' @ n @ '' not available''), w)"
    using assms c by (simp add: generate_code_def resolve_model_def)
  have s: "writable fs p \<longrightarrow>
            (\<exists>d. save_api_keys (snd (set_api_key m n [])) fs p
                   = (True, fs\<lparr>files := (files fs)(p \<mapsto> Keys_json d)\<rparr>) \<and>
                 dict_get d n = Some [])"
    using k by (auto simp: save_api_keys_def)
  have r: "fst (set_api_key m n []) = True" by (simp add: set_api_key_def Let_def)
  from r c k g s show ?thesis by (intro conjI)
qed

theorem C5_empty_key_removes_connector_witness:
  "''model1'' \<noteq> [] \<and>
   \<not> dict_has (connectors (snd (set_api_key
          (snd (set_api_key init_manager ''model1'' ''k1'')) ''model1'' []))) ''model1'' \<and>
   generate_code (snd (set_api_key (snd (set_api_key init_manager ''model1'' ''k1'')) ''model1'' []))
       (stub_world (Returned (chat_response sum_text))) ''p'' (Some ''model1'') (JFloat ''0.3'')
     = (error_dict ''Model model1 not available'', stub_world (Returned (chat_response sum_text)))"
proof -
  have n: "''model1'' \<noteq> []" by simp
  from C5_empty_key_removes_connector [OF n,
      where m = "snd (set_api_key init_manager ''model1'' ''k1'')"
      and w = "stub_world (Returned (chat_response sum_text))" and prompt = "''p''"
      and t = "JFloat ''0.3''"] n
  show ?thesis by simp
qed

text \<open>
  C5 as stated fails: after a key was set for \<^verbatim>\<open>model1\<close> and then cleared, the entry of
  \<^verbatim>\<open>model1\<close> is still in \<^verbatim>\<open>api_keys\<close>.
\<close>

theorem C5_credential_entry_kept_counterexample:
  "api_keys (snd (set_api_key (snd (set_api_key init_manager ''model1'' ''k1'')) ''model1'' []))
     = [(''model1'', [])] \<and>
   dict_has (api_keys (snd (set_api_key (snd (set_api_key init_manager ''model1'' ''k1''))
       ''model1'' []))) ''model1''"
  by code_simp

text \<open>
  C6. \<^verbatim>\<open>generate_code\<close> with a model named in the call that has no connector returns the
  error \<^verbatim>\<open>Model <name> not available\<close>; the world comes back as it was, so no request was
  sent and no connector was called. The method assigns to no field of the manager, which
  is why the model gives it no new manager to return. A name is given in the call when it
  is not empty: Python takes the empty string for no name.
\<close>

theorem C6_unknown_provider_no_request:
  assumes "n \<noteq> []" and "\<not> dict_has (connectors m) n"
  shows "generate_code m w prompt (Some n) t = (error_dict (''Model '' @ n @ '' not available''), w)"
  using assms by (simp add: generate_code_def resolve_model_def)

theorem C6_unknown_provider_no_request_witness:
  "''model9'' \<noteq> [] \<and>
   \<not> dict_has (connectors (snd (set_api_key init_manager ''model1'' ''k1''))) ''model9'' \<and>
   generate_code (snd (set_api_key init_manager ''model1'' ''k1''))
       (stub_world (Returned (chat_response sum_text))) ''p'' (Some ''model9'') (JFloat ''0.3'')
     = (error_dict ''Model model9 not available'', stub_world (Returned (chat_response sum_text)))"
proof -
  have n: "''model9'' \<noteq> []" by simp
  have c: "\<not> dict_has (connectors (snd (set_api_key init_manager ''model1'' ''k1''))) ''model9''"
    by code_simp
  from C6_unknown_provider_no_request [OF n c] n c show ?thesis by simp
qed

text \<open>
  C10. \<^verbatim>\<open>set_api_key\<close> with a name the factory does not know and a non-empty key returns
  \<^verbatim>\<open>False\<close>; the key is in \<^verbatim>\<open>api_keys\<close> all the same, \<^verbatim>\<open>connectors\<close> and the active model
  are as before, and a following \<^verbatim>\<open>save_api_keys\<close> that can write its file writes the key of
  the unknown name with the others.
\<close>

theorem C10_unknown_id_key_recorded:
  assumes "n \<notin> set provider_ids" and "key \<noteq> []"
  shows "set_api_key m n key = (False, m\<lparr>api_keys := dict_set (api_keys m) n key\<rparr>) \<and>
         dict_get (api_keys (snd (set_api_key m n key))) n = Some key \<and>
         connectors (snd (set_api_key m n key)) = connectors m \<and>
         active_model (snd (set_api_key m n key)) = active_model m \<and>
         (writable fs p \<longrightarrow>
            (\<exists>d. save_api_keys (snd (set_api_key m n key)) fs p
                   = (True, fs\<lparr>files := (files fs)(p \<mapsto> Keys_json d)\<rparr>) \<and>
                 dict_get d n = Some key))"
proof -
  have s: "set_api_key m n key = (False, m\<lparr>api_keys := dict_set (api_keys m) n key\<rparr>)"
    using assms by (simp add: set_api_key_def Let_def create_connector_unknown)
  show ?thesis
    by (auto simp: s dict_get_set save_api_keys_def
        intro!: exI [of _ "dict_set (api_keys m) n key"])
qed

theorem C10_unknown_id_key_recorded_witness:
  "''model9'' \<notin> set provider_ids \<and> ''k9'' \<noteq> [] \<and> writable empty_fs ''keys/api.json'' \<and>
   set_api_key init_manager ''model9'' ''k9''
     = (False, init_manager\<lparr>api_keys := [(''model9'', ''k9'')]\<rparr>) \<and>
   (\<exists>d. save_api_keys (snd (set_api_key init_manager ''model9'' ''k9'')) empty_fs ''keys/api.json''
          = (True, empty_fs\<lparr>files := (files empty_fs)(''keys/api.json'' \<mapsto> Keys_json d)\<rparr>) \<and>
        dict_get d ''model9'' = Some ''k9'')"
proof -
  have n: "''model9'' \<notin> set provider_ids" by (simp add: provider_ids_def)
  have k: "''k9'' \<noteq> []" by simp
  have w: "writable empty_fs ''keys/api.json''" by (simp add: empty_fs_def)
  note t = C10_unknown_id_key_recorded [OF n k, of init_manager empty_fs "''keys/api.json''"]
  from t have s: "set_api_key init_manager ''model9'' ''k9''
     = (False, init_manager\<lparr>api_keys := [(''model9'', ''k9'')]\<rparr>)"
    by (simp add: init_manager_def)
  from t w have e: "\<exists>d. save_api_keys (snd (set_api_key init_manager ''model9'' ''k9'')) empty_fs
          ''keys/api.json''
          = (True, empty_fs\<lparr>files := (files empty_fs)(''keys/api.json'' \<mapsto> Keys_json d)\<rparr>) \<and>
        dict_get d ''model9'' = Some ''k9''"
    by blast
  from n k w s e show ?thesis by blast
qed

section \<open>Network failures\<close>

lemma make_request_caught:
  assumes "\<forall>req. respond w req = Raised e" and "is_RequestException (class_of e)"
  shows "fst (make_request c w method endpoint data headers params)
           = Inr (JObj (error_dict (str_exc e)))"
  using assms by (simp add: make_request_def Let_def)

lemma after_request_error:
  "fst rw = Inr (JObj (error_dict msg)) \<Longrightarrow>
   fst (after_request navigate rw) = Inr (JObj (error_dict msg))"
  by (simp add: after_request_def has_error_dict)

text \<open>
  C9. When the request fails with a \<^verbatim>\<open>RequestException\<close> (a timeout, the \<^verbatim>\<open>HTTPError\<close> that
  \<^verbatim>\<open>raise_for_status\<close> raises for a failure status, a connection error), \<^verbatim>\<open>_make_request\<close>
  returns a dictionary whose \<^verbatim>\<open>error\<close> field is the text of the exception, and the
  \<^verbatim>\<open>generate_code\<close> of every connector returns that dictionary: no exception leaves the
  connector. For which status codes the library raises is the library's rule and no part
  of this model.
\<close>

theorem C9_network_failure_is_error_result:
  assumes "\<forall>req. respond w req = Raised e" and "is_RequestException (class_of e)"
  shows "fst (make_request c w method endpoint data headers params)
           = Inr (JObj [(''error'', JStr (str_exc e))]) \<and>
         fst (connector_generate_code c w prompt t)
           = Inr (JObj [(''error'', JStr (str_exc e))])"
proof -
  note mr = make_request_caught [OF assms]
  have "fst (connector_generate_code c w prompt t) = Inr (JObj (error_dict (str_exc e)))"
    by (cases "cls c")
      (simp_all add: connector_generate_code_def deepseek_generate_code_def
        gemini_generate_code_def openai_generate_code_def grok_generate_code_def
        claude_generate_code_def after_request_error mr)
  with mr show ?thesis by (simp add: error_dict_def)
qed

theorem C9_network_failure_is_error_result_witness:
  "(\<forall>req. respond (stub_world (Raised (Exc Timeout ''Read timed out.''))) req
            = Raised (Exc Timeout ''Read timed out.'')) \<and>
   is_RequestException (class_of (Exc Timeout ''Read timed out.'')) \<and>
   fst (connector_generate_code (new_connector Claude ''k5'')
          (stub_world (Raised (Exc Timeout ''Read timed out.''))) ''p'' (JFloat ''0.3''))
     = Inr (JObj [(''error'', JStr ''Read timed out.'')])"
proof -
  have r: "\<forall>req. respond (stub_world (Raised (Exc Timeout ''Read timed out.''))) req
            = Raised (Exc Timeout ''Read timed out.'')"
    by (simp add: stub_world_def)
  have i: "is_RequestException (class_of (Exc Timeout ''Read timed out.''))" by simp
  from C9_network_failure_is_error_result [OF r i, of "new_connector Claude ''k5''"] r i
  show ?thesis by simp
qed

section \<open>The capabilities of the thin front end\<close>

text \<open>
  C8, as the code has it. For each of the five providers with a key set, code generation,
  bug fixing and test generation call the provider's method with the mode \<^verbatim>\<open>code\<close>, and
  documentation calls it with the mode \<^verbatim>\<open>chat\<close>. Optimization is no part of the statement.
\<close>

theorem C8_front_end_capabilities:
  assumes "n \<in> set provider_ids" and "dict_get (models ai) n = Some info"
    and "truthy (mi_api_key info)"
  shows "ai_generate_code ai n requirements language framework include_tests include_docs optimize
           = catching ''generate code''
               (provider_api n ai
                  (ai_code_prompt requirements language framework include_tests include_docs
                     optimize) ''code'') \<and>
         ai_fix_bugs ai n code error_message language
           = catching ''fix bugs''
               (provider_api n ai (ai_fix_prompt code error_message language) ''code'') \<and>
         ai_generate_tests ai n code language test_framework
           = catching ''generate tests''
               (provider_api n ai (ai_tests_prompt code language test_framework) ''code'') \<and>
         ai_generate_documentation ai n code language doc_format
           = catching ''generate documentation''
               (provider_api n ai (ai_documentation_prompt code language doc_format) ''chat'')"
proof -
  from assms(1) consider "n = ''model1''" | "n = ''model2''" | "n = ''model3''" | "n = ''model4''"
    | "n = ''model5''"
    by (auto simp: provider_ids_def)
  then show ?thesis
    using assms(2,3)
    by cases
      (simp_all add: ai_generate_code_def ai_fix_bugs_def ai_generate_tests_def
        ai_generate_documentation_def guarded_def provider_api_def)
qed

theorem C8_front_end_capabilities_witness:
  "''model3'' \<in> set provider_ids \<and>
   ai_generate_documentation (snd (ai_set_api_key init_integration ''model3'' ''k3''))
       ''model3'' ''x = 1'' ''python'' ''markdown''
     = [(''content'', JStr ''This is a sample response from the OpenAI API.'')] \<and>
   dict_has (ai_fix_bugs (snd (ai_set_api_key init_integration ''model3'' ''k3''))
       ''model3'' ''x = 1'' ''boom'' ''python'') ''code''"
proof -
  let ?ai = "snd (ai_set_api_key init_integration ''model3'' ''k3'')"
  have a: "''model3'' \<in> set provider_ids" by (simp add: provider_ids_def)
  have b: "dict_get (models ?ai) ''model3'' =
     Some \<lparr>mi_name = ''Model 3'', mi_api_key = Some ''k3'', mi_endpoint = ''https://api.openai.com/v1'',
           mi_models = [(''code'', ''gpt-5''), (''chat'', ''gpt-5''), (''vision'', ''gpt-5-vision'')]\<rparr>"
    by code_simp
  have c: "truthy (mi_api_key \<lparr>mi_name = ''Model 3'', mi_api_key = Some ''k3'', mi_endpoint = ''https://api.openai.com/v1'',
           mi_models = [(''code'', ''gpt-5''), (''chat'', ''gpt-5''), (''vision'', ''gpt-5-vision'')]\<rparr>)"
    by (simp add: truthy_def)
  have d: "catching ''generate documentation''
             (provider_api ''model3'' ?ai (ai_documentation_prompt ''x = 1'' ''python'' ''markdown'') ''chat'')
           = [(''content'', JStr ''This is a sample response from the OpenAI API.'')]"
    by code_simp
  have e: "dict_has (catching ''fix bugs''
             (provider_api ''model3'' ?ai (ai_fix_prompt ''x = 1'' ''boom'' ''python'') ''code'')) ''code''"
    by code_simp
  from C8_front_end_capabilities [OF a b c, where code = "''x = 1''" and language = "''python''"
      and error_message = "''boom''" and doc_format = "''markdown''"] a d e
  show ?thesis by simp
qed

text \<open>
  C8 as stated fails for test generation: for \<^verbatim>\<open>model1\<close> with a key, \<^verbatim>\<open>generate_tests\<close>
  returns what the provider's method returns in the mode \<^verbatim>\<open>code\<close>, a result with a
  \<^verbatim>\<open>code\<close> field, and not what it returns in the mode \<^verbatim>\<open>chat\<close>.
\<close>

theorem C8_tests_use_code_counterexample:
  "dict_has (ai_generate_tests (snd (ai_set_api_key init_integration ''model1'' ''k1''))
       ''model1'' ''x = 1'' ''python'' None) ''code'' \<and>
   ai_generate_tests (snd (ai_set_api_key init_integration ''model1'' ''k1''))
       ''model1'' ''x = 1'' ''python'' None
     = catching ''generate tests''
         (call_model1_api (snd (ai_set_api_key init_integration ''model1'' ''k1''))
            (ai_tests_prompt ''x = 1'' ''python'' None) ''code'') \<and>
   ai_generate_tests (snd (ai_set_api_key init_integration ''model1'' ''k1''))
       ''model1'' ''x = 1'' ''python'' None
     \<noteq> catching ''generate tests''
         (call_model1_api (snd (ai_set_api_key init_integration ''model1'' ''k1''))
            (ai_tests_prompt ''x = 1'' ''python'' None) ''chat'')"
  by code_simp

text \<open>
  \<^verbatim>\<open>optimize_code\<close> reaches no provider method: its chain compares the name with five names
  that are not keys of the table, so for each of the five providers it returns the error of
  its last branch.
\<close>

lemma ai_optimize_code_not_implemented:
  assumes "n \<in> set provider_ids" and "dict_get (models ai) n = Some info"
    and "truthy (mi_api_key info)"
  shows "ai_optimize_code ai n code language target
           = error_dict (''API integration not implemented for '' @ n)"
  using assms
  by (auto simp: provider_ids_def ai_optimize_code_def guarded_def catching_def)

end
